theory Spec2Isabelle
  imports Main "HOL-Library.Sublist" "HOL-Library.AList"
begin

text \<open>
  A model of \<open>setup-mcp.js\<close>, the installer that fingerprints a project directory
  and writes rule documents, a memory document and settings for it, and the
  properties of its specification. Console output is not part of the model.
\<close>

section \<open>JavaScript values\<close>

text \<open>
  The values \<open>JSON.parse\<close> returns. A number is kept as the text \<open>String(n)\<close> gives
  for it (\<open>''0''\<close> for zero), which is all the program observes of a number: its
  truthiness and its rendering. An object is the list of its own properties in
  insertion order, without repeated keys; a property read is \<open>map_of\<close>.
\<close>

datatype json =
    JNull
  | JBool bool
  | JNumber string
  | JString string
  | JArray "json list"
  | JObject "(string \<times> json) list"

text \<open>
  What the program can throw: a failed system call (with its code), the
  \<open>SyntaxError\<close> of \<open>JSON.parse\<close>, the \<open>TypeError\<close> of a property read on
  \<open>null\<close> or of a path function applied to \<open>undefined\<close>, and the \<open>Error\<close> that
  \<open>installMCPServer\<close> builds around whatever its body threw.
\<close>

datatype error =
    SystemError string
  | SyntaxError
  | TypeError
  | SetupError error

definition bindE :: "error + 'a \<Rightarrow> ('a \<Rightarrow> error + 'b) \<Rightarrow> error + 'b" where
  "bindE m f = (case m of Inl e \<Rightarrow> Inl e | Inr x \<Rightarrow> f x)"

text \<open>Truthiness of a value, as \<open>if (v)\<close>, \<open>v || w\<close> and \<open>v ? a : b\<close> test it.\<close>

fun truthy :: "json \<Rightarrow> bool" where
  "truthy JNull = False"
| "truthy (JBool b) = b"
| "truthy (JNumber n) = (n \<noteq> ''0'')"
| "truthy (JString s) = (s \<noteq> [])"
| "truthy (JArray xs) = True"
| "truthy (JObject kvs) = True"

text \<open>A property read yields \<open>None\<close> for \<open>undefined\<close>.\<close>

definition truthy_opt :: "json option \<Rightarrow> bool" where
  "truthy_opt v = (case v of None \<Rightarrow> False | Some x \<Rightarrow> truthy x)"

text \<open>
  \<open>v.k\<close> for the property names the program reads (\<open>name\<close>, \<open>dependencies\<close>,
  \<open>devDependencies\<close>, \<open>workspaces\<close>, \<open>scripts\<close>): none of them is a property of a
  string, an array, a number or a boolean, and reading any property of \<open>null\<close> throws.
\<close>

fun getProp :: "json \<Rightarrow> string \<Rightarrow> error + json option" where
  "getProp JNull k = Inl TypeError"
| "getProp (JObject kvs) k = Inr (map_of kvs k)"
| "getProp v k = Inr None"

text \<open>Decimal rendering of an index, for the keys a spread gives to array elements.\<close>

fun dec :: "nat \<Rightarrow> string" where
  "dec n = (if n < 10 then [''0123456789'' ! n]
            else dec (n div 10) @ [''0123456789'' ! (n mod 10)])"

declare dec.simps [simp del]

fun indexed :: "nat \<Rightarrow> json list \<Rightarrow> (string \<times> json) list" where
  "indexed i [] = []"
| "indexed i (x # xs) = (dec i, x) # indexed (Suc i) xs"

text \<open>
  The own enumerable properties \<open>{...v}\<close> copies: those of an object, the indexed
  elements of an array, the indexed characters of a string, and nothing for
  \<open>undefined\<close>, \<open>null\<close>, a number or a boolean.
\<close>

fun spread :: "json option \<Rightarrow> (string \<times> json) list" where
  "spread (Some (JObject kvs)) = kvs"
| "spread (Some (JArray xs)) = indexed 0 xs"
| "spread (Some (JString s)) = indexed 0 (map (\<lambda>c. JString [c]) s)"
| "spread v = []"

text \<open>
  Adding properties to an object under construction: a key already there keeps its
  place and takes the new value, a new key goes to the end. (JavaScript puts keys
  that are array indices first; the program adds no such key to an object that it
  writes out.)
\<close>

definition assign :: "(string \<times> json) list \<Rightarrow> (string \<times> json) list \<Rightarrow> (string \<times> json) list" where
  "assign target src = fold (\<lambda>(k, v). AList.update k v) src target"

text \<open>\<open>Array.prototype.join\<close> on strings.\<close>

fun joinStr :: "string \<Rightarrow> string list \<Rightarrow> string" where
  "joinStr s [] = []"
| "joinStr s [x] = x"
| "joinStr s (x # y # ys) = x @ s @ joinStr s (y # ys)"

text \<open>The first error of a list of results, or all the values.\<close>

fun sequenceE :: "(error + 'a) list \<Rightarrow> error + 'a list" where
  "sequenceE [] = Inr []"
| "sequenceE (x # xs) = bindE x (\<lambda>y. bindE (sequenceE xs) (\<lambda>ys. Inr (y # ys)))"

text \<open>
  \<open>String(v)\<close>, as a template literal renders a value. An array renders its
  elements joined by commas, \<open>null\<close> among them as the empty string. An object is
  rendered by its \<open>toString\<close> method: the inherited one gives \<open>[object Object]\<close>; an
  own property \<open>toString\<close> of a parsed document hides it and is no function, the
  inherited \<open>valueOf\<close> returns the object itself, and the conversion throws a
  \<open>TypeError\<close>. An element of an array that throws makes the array throw.
\<close>

fun js_String :: "json \<Rightarrow> error + string" where
  "js_String JNull = Inr ''null''"
| "js_String (JBool b) = Inr (if b then ''true'' else ''false'')"
| "js_String (JNumber n) = Inr n"
| "js_String (JString s) = Inr s"
| "js_String (JArray xs) =
     bindE (sequenceE (map (\<lambda>x. if x = JNull then Inr [] else js_String x) xs))
       (\<lambda>ss. Inr (joinStr '','' ss))"
| "js_String (JObject kvs) =
     (if map_of kvs ''toString'' \<noteq> None then Inl TypeError else Inr ''[object Object]'')"

subsection \<open>JSON.stringify\<close>

text \<open>
  \<open>JSON.stringify(v, null, 2)\<close> on the values above, strings being bytes of
  well-formed UTF-8. A string is quoted with the escapes of the language standard:
  the two-character escapes for backspace, tab, line feed, form feed, carriage
  return, the double quote and the backslash, \<open>\u00XX\<close> in lower-case hexadecimal for
  the other control characters, and every other character as it is.
\<close>

text \<open>A hexadecimal digit, for \<open>n < 16\<close>.\<close>

definition hexDigit :: "nat \<Rightarrow> char" where
  "hexDigit n = ''0123456789abcdef'' ! n"

definition quoteChar :: "char \<Rightarrow> string" where
  "quoteChar c =
     (if c = CHR 0x08 then [CHR 0x5C, CHR ''b'']
      else if c = CHR 0x09 then [CHR 0x5C, CHR ''t'']
      else if c = CHR 0x0A then [CHR 0x5C, CHR ''n'']
      else if c = CHR 0x0C then [CHR 0x5C, CHR ''f'']
      else if c = CHR 0x0D then [CHR 0x5C, CHR ''r'']
      else if c = CHR 0x22 then [CHR 0x5C, CHR 0x22]
      else if c = CHR 0x5C then [CHR 0x5C, CHR 0x5C]
      else if (of_char c :: nat) < 32 then
        [CHR 0x5C, CHR ''u'', CHR ''0'', CHR ''0'',
         hexDigit (of_char c div 16), hexDigit (of_char c mod 16)]
      else [c])"

definition quoteJSON :: "string \<Rightarrow> string" where
  "quoteJSON s = CHR 0x22 # concat (map quoteChar s) @ [CHR 0x22]"

text \<open>
  The serialisation at the indentation \<open>ind\<close>: an empty array or object on one line,
  any other with each element or member on a line of its own, two spaces further in.
\<close>

fun serialize :: "string \<Rightarrow> json \<Rightarrow> string" where
  "serialize ind JNull = ''null''"
| "serialize ind (JBool b) = (if b then ''true'' else ''false'')"
| "serialize ind (JNumber n) = n"
| "serialize ind (JString s) = quoteJSON s"
| "serialize ind (JArray xs) =
     (if xs = [] then ''[]''
      else ''['' @ CHR 0x0A # (ind @ ''  '') @
           joinStr ('','' @ CHR 0x0A # (ind @ ''  '')) (map (\<lambda>x. serialize (ind @ ''  '') x) xs) @
           CHR 0x0A # ind @ '']'')"
| "serialize ind (JObject kvs) =
     (if kvs = [] then ''{}''
      else ''{'' @ CHR 0x0A # (ind @ ''  '') @
           joinStr ('','' @ CHR 0x0A # (ind @ ''  ''))
             (map (\<lambda>kv. quoteJSON (fst kv) @ '': '' @ serialize (ind @ ''  '') (snd kv)) kvs) @
           CHR 0x0A # ind @ ''}'')"

definition JSON_stringify :: "json \<Rightarrow> string" where
  "JSON_stringify v = serialize [] v"

section \<open>The environment\<close>

text \<open>\<open>os.platform()\<close>, as the program tells its values apart.\<close>

datatype platform = Win32 | Darwin | OtherOS

datatype stat = IsFile | IsDirectory | IsOther

text \<open>
  The file system as the \<open>fs\<close> calls of the program see it, each call an oracle on
  the path string it is given, with no assumption relating one oracle to another:
  a theorem about every \<open>world\<close> covers every real directory tree. \<open>refuse\<close> says which
  error, if any, a write or a \<open>mkdir\<close> of a path meets. \<open>now\<close> is the clock in
  milliseconds and \<open>tick\<close> the time that passes after a reading of it, which is never
  negative: the clock does not run backwards. The working directory is \<open>root\<close>
  followed by the components \<open>cwd\<close>.
\<close>

record world =
  platform :: platform
  root :: string
  cwd :: "string list"
  homedir :: string
  APPDATA :: "string option"
  existsSync :: "string \<Rightarrow> bool"
  readFileSync :: "string \<Rightarrow> error + string"
  readdirSync :: "string \<Rightarrow> error + string list"
  statSync :: "string \<Rightarrow> error + stat"
  refuse :: "string \<Rightarrow> error option"
  now :: nat
  tick :: "nat \<Rightarrow> nat"

text \<open>
  The functions of the JavaScript runtime that the program calls and this theory
  does not look into: \<open>JSON.parse\<close> (\<open>None\<close> when it throws),
  \<open>Date.prototype.toISOString\<close> of a clock reading, and \<open>execSync\<close> of a command
  line, which may change the file system in any way.
\<close>

record runtime =
  JSON_parse :: "string \<Rightarrow> json option"
  toISOString :: "nat \<Rightarrow> string"
  execSync :: "string \<Rightarrow> world \<Rightarrow> error + world"

definition parseJSON :: "runtime \<Rightarrow> string \<Rightarrow> error + json" where
  "parseJSON rt s = (case JSON_parse rt s of None \<Rightarrow> Inl SyntaxError | Some v \<Rightarrow> Inr v)"

subsection \<open>Paths\<close>

definition sep :: "platform \<Rightarrow> char" where
  "sep pf = (if pf = Win32 then CHR 0x5C else CHR ''/'')"

text \<open>Doubled separators collapse into one.\<close>

fun collapse :: "char \<Rightarrow> string \<Rightarrow> string" where
  "collapse c (x # y # ys) = (if x = c \<and> y = c then collapse c (y # ys) else x # collapse c (y # ys))"
| "collapse c xs = xs"

text \<open>
  \<open>path.join\<close> on segments without \<open>..\<close>: empty and \<open>.\<close> segments disappear, the
  rest is joined by the platform's separator, on Windows a forward slash becomes a
  backslash, and doubled separators collapse.
\<close>

definition path_join :: "platform \<Rightarrow> string list \<Rightarrow> string" where
  "path_join pf segs =
     (let ps = filter (\<lambda>s. s \<noteq> [] \<and> s \<noteq> ''.'') segs in
      if ps = [] then ''.''
      else collapse (sep pf)
             (map (\<lambda>c. if pf = Win32 \<and> c = CHR ''/'' then CHR 0x5C else c)
                (joinStr [sep pf] ps)))"

text \<open>The absolute path of the directory \<open>comps\<close> levels under the root.\<close>

definition abs_path :: "world \<Rightarrow> string list \<Rightarrow> string" where
  "abs_path w comps = root w @ joinStr [sep (platform w)] comps"

definition process_cwd :: "world \<Rightarrow> string" where
  "process_cwd w = abs_path w (cwd w)"

text \<open>\<open>path.basename(process.cwd())\<close>: empty at the root.\<close>

definition cwd_basename :: "world \<Rightarrow> string" where
  "cwd_basename w = (if cwd w = [] then [] else last (cwd w))"

text \<open>
  \<open>path.extname\<close> of an entry name (no separator in it): from the last dot on, and
  empty when there is no dot or the only dot is the first character.
\<close>

definition extname :: "string \<Rightarrow> string" where
  "extname f =
     (let e = takeWhile (\<lambda>c. c \<noteq> CHR ''.'') (rev f) in
      if length e = length f \<or> Suc (length e) = length f \<or> f = ''..'' then []
      else CHR ''.'' # rev e)"

subsection \<open>Writing\<close>

text \<open>
  A write that is not refused leaves a regular file with the given content at the
  path. A \<open>mkdir\<close> that is not refused leaves a directory there. Neither changes what
  any other path answers.
\<close>

definition writeFileSync :: "world \<Rightarrow> string \<Rightarrow> string \<Rightarrow> error + world" where
  "writeFileSync w p c =
     (case refuse w p of
        Some e \<Rightarrow> Inl e
      | None \<Rightarrow> Inr (w\<lparr>existsSync := (existsSync w)(p := True),
                        readFileSync := (readFileSync w)(p := Inr c),
                        statSync := (statSync w)(p := Inr IsFile)\<rparr>))"


text \<open>\<open>new Date()\<close>: the reading, and the world after it.\<close>

definition new_Date :: "world \<Rightarrow> nat \<times> world" where
  "new_Date w = (now w, w\<lparr>now := now w + tick w (now w)\<rparr>)"

section \<open>Configuration\<close>

text \<open>\<open>CONFIG\<close>, the port as the templates render the number.\<close>

definition memoryDirName :: string where "memoryDirName = ''.mcp''"
definition memoryFileName :: string where "memoryFileName = ''ai_memory.json''"
definition rulesDirName :: string where "rulesDirName = ''.cursor/rules''"
definition mcpPort :: string where "mcpPort = ''3002''"

section \<open>The project profile\<close>

record patterns =
  auth :: "string option"
  dataManagement :: "string option"
  ui :: "string option"

text \<open>
  \<open>projectInfo\<close>. \<open>name\<close> is a value, since \<open>packageJson.name\<close> may be any truthy
  value. A pattern slot is \<open>None\<close> for \<open>null\<close>. The four structural flags and
  \<open>componentPattern\<close> are properties that are only ever set to \<open>true\<close> or to a
  label: \<open>False\<close> and \<open>None\<close> stand for the absent property.
\<close>

record profile =
  name :: json
  type :: string
  frameworks :: "string list"
  patterns :: patterns
  testing :: "string list"
  config :: "string list"
  isMonorepo :: bool
  repoRoot :: "string option"
  hasSourceDir :: bool
  hasTestsDir :: bool
  hasDocsDir :: bool
  hasScriptsDir :: bool
  componentPattern :: "string option"

definition initialProfile :: "world \<Rightarrow> profile" where
  "initialProfile w =
     \<lparr>name = JString (cwd_basename w), type = ''unknown'', frameworks = [],
      patterns = \<lparr>auth = None, dataManagement = None, ui = None\<rparr>,
      testing = [], config = [], isMonorepo = False, repoRoot = None,
      hasSourceDir = False, hasTestsDir = False, hasDocsDir = False,
      hasScriptsDir = False, componentPattern = None\<rparr>"

section \<open>analyzeProject\<close>

subsection \<open>Version-control root\<close>

text \<open>
  The loop over the ancestors, on the components of the directory innermost first.
  It starts at the working directory and stops, without looking there, when it
  reaches the root.
\<close>

fun walkUp :: "world \<Rightarrow> string list \<Rightarrow> string option" where
  "walkUp w [] = None"
| "walkUp w (c # outer) =
     (let currentDir = abs_path w (rev (c # outer)) in
      if existsSync w (path_join (platform w) [currentDir, ''.git''])
      then Some currentDir else walkUp w outer)"

definition findRepoRoot :: "world \<Rightarrow> string option" where
  "findRepoRoot w =
     (if existsSync w ''.git'' then Some (process_cwd w) else walkUp w (rev (cwd w)))"

subsection \<open>Monorepo markers\<close>

text \<open>The condition of the \<open>if\<close>, left to right with its short cuts.\<close>

definition monorepoMarker :: "world \<Rightarrow> runtime \<Rightarrow> error + bool" where
  "monorepoMarker w rt =
     (if existsSync w ''lerna.json'' then Inr True
      else if existsSync w ''pnpm-workspace.yaml'' then Inr True
      else if existsSync w ''package.json'' then
        bindE (readFileSync w ''package.json'') (\<lambda>s.
        bindE (parseJSON rt s) (\<lambda>pj.
        bindE (getProp pj ''workspaces'') (\<lambda>ws. Inr (truthy_opt ws))))
      else Inr False)"

subsection \<open>Configuration files\<close>

definition configFiles :: "string list" where
  "configFiles =
     [''.eslintrc.js'', ''.eslintrc.json'', ''.eslintrc'',
      ''tsconfig.json'', ''babel.config.js'', ''jest.config.js'',
      ''.prettierrc'', ''.prettierrc.js'', ''.stylelintrc'',
      ''vite.config.js'', ''vite.config.ts'', ''webpack.config.js'',
      ''next.config.js'', ''nuxt.config.js'', ''angular.json'',
      ''.env'', ''.env.local'', ''.env.development'']"

subsection \<open>The package manifest\<close>

text \<open>\<open>{ ...packageJson.dependencies, ...packageJson.devDependencies }\<close>.\<close>

definition mergeDeps :: "json option \<Rightarrow> json option \<Rightarrow> (string \<times> json) list" where
  "mergeDeps ds dds = assign (assign [] (spread ds)) (spread dds)"

text \<open>\<open>deps.k\<close> as a condition: the key is there and its value is truthy.\<close>

definition has :: "(string \<times> json) list \<Rightarrow> string \<Rightarrow> bool" where
  "has deps k = truthy_opt (map_of deps k)"

definition detectTesting :: "(string \<times> json) list \<Rightarrow> string list" where
  "detectTesting deps =
     (if has deps ''jest'' then [''Jest''] else []) @
     (if has deps ''mocha'' then [''Mocha''] else []) @
     (if has deps ''chai'' then [''Chai''] else []) @
     (if has deps ''cypress'' then [''Cypress''] else []) @
     (if has deps ''@testing-library/react'' then [''React Testing Library''] else []) @
     (if has deps ''@testing-library/vue'' then [''Vue Testing Library''] else [])"

text \<open>The primary chain: the type it sets, if any, and the labels it pushes.\<close>

definition detectPrimary :: "(string \<times> json) list \<Rightarrow> string option \<times> string list" where
  "detectPrimary deps =
     (if has deps ''react'' then
        (if has deps ''next'' then (Some ''Next.js'', [''React'', ''Next.js''])
         else if has deps ''react-native'' then (Some ''React Native'', [''React'', ''React Native''])
         else (Some ''React'', [''React'']))
      else if has deps ''vue'' then
        (Some ''Vue'', [''Vue''] @ (if has deps ''nuxt'' then [''Nuxt.js''] else []))
      else if has deps ''angular'' then (Some ''Angular'', [''Angular''])
      else if has deps ''svelte'' then (Some ''Svelte'', [''Svelte''])
      else if has deps ''express'' \<or> has deps ''koa'' \<or> has deps ''hapi'' \<or> has deps ''fastify'' then
        (Some ''Node.js'',
         (if has deps ''express'' then [''Express''] else []) @
         (if has deps ''koa'' then [''Koa''] else []) @
         (if has deps ''hapi'' then [''Hapi''] else []) @
         (if has deps ''fastify'' then [''Fastify''] else []))
      else (None, []))"

definition detectState :: "(string \<times> json) list \<Rightarrow> string list" where
  "detectState deps =
     (if has deps ''redux'' \<or> has deps ''@reduxjs/toolkit'' then [''Redux''] else []) @
     (if has deps ''mobx'' then [''MobX''] else []) @
     (if has deps ''zustand'' then [''Zustand''] else []) @
     (if has deps ''jotai'' then [''Jotai''] else []) @
     (if has deps ''recoil'' then [''Recoil''] else [])"

text \<open>The authentication chain: the slot, and the label Firebase pushes.\<close>

definition detectAuth :: "(string \<times> json) list \<Rightarrow> string option \<times> string list" where
  "detectAuth deps =
     (if has deps ''firebase'' \<or> has deps ''firebase-admin'' then
        (Some ''Firebase Authentication'', [''Firebase''])
      else if has deps ''auth0'' then (Some ''Auth0'', [])
      else if has deps ''@clerk/nextjs'' \<or> has deps ''@clerk/clerk-react'' then (Some ''Clerk'', [])
      else if has deps ''next-auth'' then (Some ''NextAuth.js'', [])
      else if has deps ''passport'' then (Some ''Passport.js'', [])
      else if has deps ''keycloak'' then (Some ''Keycloak'', [])
      else (None, []))"

definition detectData :: "(string \<times> json) list \<Rightarrow> string option" where
  "detectData deps =
     (if has deps ''firebase'' \<or> has deps ''firebase-admin'' then Some ''Firebase Firestore''
      else if has deps ''prisma'' then Some ''Prisma''
      else if has deps ''mongoose'' then Some ''MongoDB (Mongoose)''
      else if has deps ''sequelize'' then Some ''SQL (Sequelize)''
      else if has deps ''typeorm'' then Some ''TypeORM''
      else if has deps ''@prisma/client'' then Some ''Prisma''
      else if has deps ''@tanstack/react-query'' then Some ''React Query''
      else if has deps ''apollo'' \<or> has deps ''@apollo/client'' then Some ''Apollo GraphQL''
      else if has deps ''swr'' then Some ''SWR''
      else None)"

definition detectUI :: "(string \<times> json) list \<Rightarrow> string option" where
  "detectUI deps =
     (if has deps ''tailwindcss'' then Some ''Tailwind CSS''
      else if has deps ''@mui/material'' \<or> has deps ''@material-ui/core'' then Some ''Material UI''
      else if has deps ''@chakra-ui/react'' then Some ''Chakra UI''
      else if has deps ''bootstrap'' \<or> has deps ''react-bootstrap'' then Some ''Bootstrap''
      else if has deps ''styled-components'' then Some ''Styled Components''
      else if has deps ''@emotion/react'' then Some ''Emotion''
      else if has deps ''@radix-ui/react-dialog'' then Some ''Radix UI''
      else if has deps ''@mantine/core'' then Some ''Mantine UI''
      else if has deps ''@headlessui/react'' then Some ''Headless UI''
      else None)"

text \<open>
  The branch taken when \<open>package.json\<close> exists, from the parsed manifest on. The
  reads of \<open>name\<close>, \<open>dependencies\<close> and \<open>devDependencies\<close> throw on \<open>null\<close>.
  A chain in which no branch fires leaves its slot as it was.
\<close>

definition fromManifest :: "json \<Rightarrow> profile \<Rightarrow> error + profile" where
  "fromManifest packageJson p =
     bindE (getProp packageJson ''name'') (\<lambda>nm.
     bindE (getProp packageJson ''dependencies'') (\<lambda>ds.
     bindE (getProp packageJson ''devDependencies'') (\<lambda>dds.
       let deps = mergeDeps ds dds;
           (ty, fws) = detectPrimary deps;
           (au, fb) = detectAuth deps
       in Inr (p\<lparr>name := (case nm of Some v \<Rightarrow> if truthy v then v else name p | None \<Rightarrow> name p),
                 testing := testing p @ detectTesting deps,
                 type := (case ty of Some t \<Rightarrow> t | None \<Rightarrow> type p),
                 frameworks := frameworks p @ fws @ detectState deps @ fb,
                 patterns :=
                   \<lparr>auth = (case au of Some a \<Rightarrow> Some a | None \<Rightarrow> auth (patterns p)),
                    dataManagement = (case detectData deps of Some d \<Rightarrow> Some d
                                      | None \<Rightarrow> dataManagement (patterns p)),
                    ui = (case detectUI deps of Some u \<Rightarrow> Some u | None \<Rightarrow> ui (patterns p))\<rparr>\<rparr>))))"

subsection \<open>The Python branch\<close>

text \<open>
  \<open>fs.readdirSync('.').some(f => fs.existsSync(f) && fs.statSync(f).isFile() &&
  path.extname(f) === '.py' && fs.readFileSync(f, 'utf8').includes(needle))\<close>:
  the entries in order, stopping at the first hit; whatever \<open>statSync\<close> or
  \<open>readFileSync\<close> throws leaves the loop.
\<close>

fun somePy :: "world \<Rightarrow> string \<Rightarrow> string list \<Rightarrow> error + bool" where
  "somePy w needle [] = Inr False"
| "somePy w needle (f # fs) =
     (if \<not> existsSync w f then somePy w needle fs
      else bindE (statSync w f) (\<lambda>st.
        if st \<noteq> IsFile then somePy w needle fs
        else if extname f \<noteq> ''.py'' then somePy w needle fs
        else bindE (readFileSync w f) (\<lambda>content.
          if sublist needle content then Inr True else somePy w needle fs)))"

definition scanPy :: "world \<Rightarrow> string \<Rightarrow> error + bool" where
  "scanPy w needle = bindE (readdirSync w ''.'') (somePy w needle)"

text \<open>\<open>fs.existsSync(marker) || (the scan)\<close>.\<close>

definition markerOrScan :: "world \<Rightarrow> string \<Rightarrow> string \<Rightarrow> error + bool" where
  "markerOrScan w marker needle = (if existsSync w marker then Inr True else scanPy w needle)"

definition pythonFrameworks :: "world \<Rightarrow> error + string list" where
  "pythonFrameworks w =
     (if existsSync w ''manage.py'' \<or> existsSync w ''django_project'' then Inr [''Django'']
      else bindE (markerOrScan w ''app.py'' ''Flask(__name__'') (\<lambda>flask.
        if flask then Inr [''Flask'']
        else bindE (markerOrScan w ''fastapi'' ''FastAPI('') (\<lambda>fastapi.
          Inr (if fastapi then [''FastAPI''] else []))))"

definition fromPython :: "world \<Rightarrow> profile \<Rightarrow> error + profile" where
  "fromPython w p =
     bindE (pythonFrameworks w) (\<lambda>fws.
     bindE (markerOrScan w ''unittest'' ''unittest.TestCase'') (\<lambda>ut.
       Inr (p\<lparr>type := ''Python'',
               frameworks := frameworks p @ fws,
               testing := testing p @
                 (if existsSync w ''pytest.ini'' \<or> existsSync w ''conftest.py'' then [''pytest''] else []) @
                 (if ut then [''unittest''] else [])\<rparr>)))"

subsection \<open>findDir\<close>

text \<open>
  The loop over the entries of \<open>baseDir\<close>, with the recursive call as \<open>deeper\<close>.
  It runs inside the \<open>try\<close> of \<open>findDir\<close>: a \<open>statSync\<close> that throws ends the whole
  search below \<open>baseDir\<close> with \<open>false\<close>.
\<close>

fun scanEntries :: "(string \<Rightarrow> bool) \<Rightarrow> world \<Rightarrow> string \<Rightarrow> string list \<Rightarrow> bool" where
  "scanEntries deeper w baseDir [] = False"
| "scanEntries deeper w baseDir (entry # es) =
     (let fullPath = path_join (platform w) [baseDir, entry] in
      case statSync w fullPath of
        Inl e \<Rightarrow> False
      | Inr st \<Rightarrow>
          if st = IsDirectory \<and> \<not> prefix ''.'' entry \<and> entry \<noteq> ''node_modules''
          then (if deeper fullPath then True else scanEntries deeper w baseDir es)
          else scanEntries deeper w baseDir es)"

fun findDir :: "world \<Rightarrow> string \<Rightarrow> string \<Rightarrow> nat \<Rightarrow> bool" where
  "findDir w baseDir targetDir 0 = False"
| "findDir w baseDir targetDir (Suc maxDepth) =
     (case readdirSync w baseDir of
        Inl e \<Rightarrow> False
      | Inr entries \<Rightarrow>
          if targetDir \<in> set entries then
            (case statSync w (path_join (platform w) [baseDir, targetDir]) of
               Inl e \<Rightarrow> False
             | Inr st \<Rightarrow>
                 if st = IsDirectory then True
                 else scanEntries (\<lambda>p. findDir w p targetDir maxDepth) w baseDir entries)
          else scanEntries (\<lambda>p. findDir w p targetDir maxDepth) w baseDir entries)"

subsection \<open>Directory structure\<close>

text \<open>\<open>fs.readdirSync('.').filter(f => fs.statSync(f).isDirectory())\<close>.\<close>

fun dirsOnly :: "world \<Rightarrow> string list \<Rightarrow> error + string list" where
  "dirsOnly w [] = Inr []"
| "dirsOnly w (f # fs) =
     bindE (statSync w f) (\<lambda>st.
     bindE (dirsOnly w fs) (\<lambda>rest.
       Inr (if st = IsDirectory then f # rest else rest)))"

text \<open>
  The \<open>try\<close> block at the end of \<open>analyzeProject\<close>. Only its first statement can
  throw, and then nothing has been assigned yet: the \<open>catch\<close> leaves the profile as
  it was.
\<close>

definition structureScan :: "world \<Rightarrow> profile \<Rightarrow> profile" where
  "structureScan w p =
     (case bindE (readdirSync w ''.'') (dirsOnly w) of
        Inl e \<Rightarrow> p
      | Inr topLevelDirs \<Rightarrow>
          let q = p\<lparr>hasSourceDir := (if ''src'' \<in> set topLevelDirs then True else hasSourceDir p),
                    hasTestsDir := (if ''tests'' \<in> set topLevelDirs \<or> ''__tests__'' \<in> set topLevelDirs
                                    then True else hasTestsDir p),
                    hasDocsDir := (if ''docs'' \<in> set topLevelDirs then True else hasDocsDir p),
                    hasScriptsDir := (if ''scripts'' \<in> set topLevelDirs then True else hasScriptsDir p)\<rparr>
          in
          if type q = ''React'' \<or> type q = ''Next.js'' then
            (if list_all (\<lambda>dir. findDir w ''.'' dir 3) [''atoms'', ''molecules'', ''organisms'', ''templates'']
             then q\<lparr>componentPattern := Some ''Atomic Design''\<rparr>
             else if findDir w ''.'' ''features'' 3 then q\<lparr>componentPattern := Some ''Feature-based''\<rparr>
             else if findDir w ''.'' ''pages'' 3 then q\<lparr>componentPattern := Some ''Page-based''\<rparr>
             else q)
          else q)"

subsection \<open>The whole function\<close>

text \<open>
  The primary detection: the manifest when \<open>package.json\<close> exists, else the Python
  branch when one of its markers exists, else nothing.
\<close>

definition primaryDetection :: "world \<Rightarrow> runtime \<Rightarrow> profile \<Rightarrow> error + profile" where
  "primaryDetection w rt p =
     (if existsSync w ''package.json'' then
        bindE (readFileSync w ''package.json'') (\<lambda>s.
        bindE (parseJSON rt s) (\<lambda>packageJson. fromManifest packageJson p))
      else if existsSync w ''requirements.txt'' \<or> existsSync w ''Pipfile''
              \<or> existsSync w ''pyproject.toml'' then fromPython w p
      else Inr p)"

definition analyzeProject :: "world \<Rightarrow> runtime \<Rightarrow> error + profile" where
  "analyzeProject w rt =
     (let p0 = (initialProfile w)\<lparr>repoRoot := findRepoRoot w\<rparr> in
      bindE (monorepoMarker w rt) (\<lambda>m.
        let p1 = p0\<lparr>isMonorepo := (if m then True else isMonorepo p0)\<rparr>;
            p2 = p1\<lparr>config := config p1 @ filter (existsSync w) configFiles\<rparr>
        in bindE (primaryDetection w rt p2) (\<lambda>p3. Inr (structureScan w p3))))"

section \<open>Rule documents\<close>

text \<open>
  \<open>${v ? f(v) : ''}\<close> on a pattern slot: the slot is \<open>null\<close> or a string, and the
  empty string is falsy as well.
\<close>

definition whenSet :: "string option \<Rightarrow> (string \<Rightarrow> string) \<Rightarrow> string" where
  "whenSet slot f = (case slot of None \<Rightarrow> [] | Some v \<Rightarrow> if v \<noteq> [] then f v else [])"

subsection \<open>createProjectRule\<close>

definition projectGlobs :: "string \<Rightarrow> string" where
  "projectGlobs ty =
     (if ty = ''Next.js'' \<or> ty = ''React'' then ''\"**/*.{ts,tsx,js,jsx}\"''
      else if ty = ''Vue'' then ''\"**/*.{vue,js,ts}\"''
      else if ty = ''Angular'' then ''\"**/*.{ts,html,scss}\"''
      else if ty = ''Python'' then ''\"**/*.py\"''
      else ''\"**/*\"'')"

definition projectRuleContent :: "profile \<Rightarrow> error + string" where
  "projectRuleContent projectInfo =
     (let p = patterns projectInfo in
      bindE (js_String (name projectInfo)) (\<lambda>nm. Inr (
      ''---\<newline>'' @
      ''description: Main project rules and context\<newline>'' @
      ''globs: '' @ projectGlobs (type projectInfo) @ ''\<newline>'' @
      ''---\<newline>'' @
      ''# '' @ nm @ '' Project Rules\<newline>'' @
      ''\<newline>'' @
      ''## About This Project\<newline>'' @
      ''\<newline>'' @
      ''This is a '' @ type projectInfo @ '' project '' @
      (if frameworks projectInfo \<noteq> [] then ''with '' @ joinStr '', '' (frameworks projectInfo) else []) @ ''.\<newline>'' @
      whenSet (auth p) (\<lambda>v. ''The project uses '' @ v @ '' for authentication.'') @ ''\<newline>'' @
      whenSet (dataManagement p) (\<lambda>v. ''It uses '' @ v @ '' for data management.'') @ ''\<newline>'' @
      whenSet (ui p) (\<lambda>v. ''The UI is built with '' @ v @ ''.'') @ ''\<newline>'' @
      ''\<newline>'' @
      ''## Technical Stack\<newline>'' @
      ''\<newline>'' @
      joinStr ''\<newline>'' (map (\<lambda>fw. ''- '' @ fw) (frameworks projectInfo)) @ ''\<newline>'' @
      whenSet (auth p) (\<lambda>v. ''- '' @ v) @ ''\<newline>'' @
      whenSet (dataManagement p) (\<lambda>v. ''- '' @ v) @ ''\<newline>'' @
      whenSet (ui p) (\<lambda>v. ''- '' @ v) @ ''\<newline>'' @
      ''\<newline>'' @
      ''## Project Structure\<newline>'' @
      ''\<newline>'' @
      ''- Analyze the project structure to understand the organization\<newline>'' @
      ''- Look for patterns in directory names and file organization\<newline>'' @
      ''- Understand the relationship between different components\<newline>'' @
      ''\<newline>'' @
      ''## Rule References\<newline>'' @
      ''\<newline>'' @
      whenSet (auth p) (\<lambda>v. ''@file:.cursor/rules/auth-rules.mdc\<newline>'') @
      whenSet (dataManagement p) (\<lambda>v. ''@file:.cursor/rules/data-management-rules.mdc\<newline>'') @
      whenSet (ui p) (\<lambda>v. ''@file:.cursor/rules/ui-components-rules.mdc\<newline>'') @
      ''@file:.cursor/rules/best-practices.mdc\<newline>'' @
      ''\<newline>'' @
      ''## MCP Memory Server Configuration\<newline>'' @
      ''\<newline>'' @
      ''The Model Context Protocol (MCP) Memory Server is configured to store persistent memories at:\<newline>'' @
      memoryDirName @ ''/'' @ memoryFileName @ '' (within the project directory)\<newline>'' @
      ''\<newline>'' @
      ''## Memory Utilization Best Practices\<newline>'' @
      ''\<newline>'' @
      ''1. **Progressive Memory Building**: Add new memories that enhance understanding of the project's evolution\<newline>'' @
      ''2. **Contextual Recall**: Reference relevant past decisions when providing recommendations\<newline>'' @
      ''3. **Implementation Consistency**: Ensure new code suggestions align with established patterns\<newline>'' @
      ''4. **Documentation Integration**: Reference project requirements in memory usage\<newline>'' @
      ''5. **Communication Continuity**: Maintain awareness of communication style and preferences\<newline>'' @
      ''\<newline>'' @
      ''## Coding Standards\<newline>'' @
      ''\<newline>'' @
      ''1. Follow the established patterns in the codebase\<newline>'' @
      ''2. Implement proper error handling and validation\<newline>'' @
      ''3. Write clean, maintainable, and self-documenting code\<newline>'' @
      ''4. Organize code logically and maintain separation of concerns\<newline>'' @
      ''5. Follow security best practices for the platform\<newline>'')))"

definition createProjectRule :: "world \<Rightarrow> profile \<Rightarrow> error + world" where
  "createProjectRule w projectInfo =
     (let rulePath = path_join (platform w) [rulesDirName, ''project-rules.mdc'']
      in bindE (projectRuleContent projectInfo) (\<lambda>ruleContent.
         writeFileSync w rulePath ruleContent))"

subsection \<open>createBestPracticesRule\<close>

text \<open>
  The content of the rule: the practices of the type, the two additions by pattern
  slot, and the fixed text around them.
\<close>

definition bestPracticesContent :: "profile \<Rightarrow> string" where
  "bestPracticesContent projectInfo =
     (let practices =
            (if type projectInfo = ''Next.js'' then
               ''\<newline>'' @
               ''Next.js Best Practices:\<newline>'' @
               ''\<newline>'' @
               ''- Utilize Next.js App Router for improved performance and easier data fetching\<newline>'' @
               ''- Implement proper error boundaries to handle and display errors gracefully\<newline>'' @
               ''- Use suspense and concurrent features for efficient data fetching and rendering\<newline>'' @
               ''- Leverage Next.js built-in optimizations like code splitting and image optimization\<newline>'' @
               ''- Implement proper server-side rendering and static generation where appropriate\<newline>'' @
               ''\<newline>'' @
               ''React Best Practices:\<newline>'' @
               ''\<newline>'' @
               ''- Use functional components and hooks instead of class components for better code organization\<newline>'' @
               ''- Implement proper use of React.memo and useMemo for performance optimization\<newline>'' @
               ''- Follow the React hooks rules strictly to avoid common pitfalls\<newline>'' @
               ''- Utilize context API for efficient state management across components\<newline>'' @
               ''- Implement proper prop type validation for better code maintainability''
             else if type projectInfo = ''React'' then
               ''\<newline>'' @
               ''React Best Practices:\<newline>'' @
               ''\<newline>'' @
               ''- Use functional components and hooks instead of class components for better code organization\<newline>'' @
               ''- Implement proper use of React.memo and useMemo for performance optimization\<newline>'' @
               ''- Follow the React hooks rules strictly to avoid common pitfalls\<newline>'' @
               ''- Utilize context API for efficient state management across components\<newline>'' @
               ''- Implement proper prop type validation for better code maintainability''
             else if type projectInfo = ''Vue'' then
               ''\<newline>'' @
               ''Vue Best Practices:\<newline>'' @
               ''\<newline>'' @
               ''- Use Vue Composition API for better code organization and reusability\<newline>'' @
               ''- Implement proper component structure with clear separation of concerns\<newline>'' @
               ''- Follow Vue's official style guide for consistent code style\<newline>'' @
               ''- Utilize Vue's reactivity system efficiently\<newline>'' @
               ''- Implement proper error handling and form validation''
             else if type projectInfo = ''Angular'' then
               ''\<newline>'' @
               ''Angular Best Practices:\<newline>'' @
               ''\<newline>'' @
               ''- Follow Angular's official style guide for consistent code style\<newline>'' @
               ''- Implement proper component design with clear inputs and outputs\<newline>'' @
               ''- Utilize Angular's dependency injection system effectively\<newline>'' @
               ''- Implement proper error handling and validation\<newline>'' @
               ''- Use Angular's change detection strategies for performance optimization''
             else if type projectInfo = ''Python'' then
               ''\<newline>'' @
               ''Python Best Practices:\<newline>'' @
               ''\<newline>'' @
               ''- Follow PEP 8 style guide for consistent code style\<newline>'' @
               ''- Use type hints for better code documentation and tooling\<newline>'' @
               ''- Implement proper error handling with try/except blocks\<newline>'' @
               ''- Use context managers for resource management\<newline>'' @
               ''- Implement proper logging for debugging and monitoring''
             else
               ''\<newline>'' @
               ''General Best Practices:\<newline>'' @
               ''\<newline>'' @
               ''- Follow consistent code style and formatting\<newline>'' @
               ''- Implement proper error handling and validation\<newline>'' @
               ''- Write clear and comprehensive documentation\<newline>'' @
               ''- Use meaningful variable and function names\<newline>'' @
               ''- Write unit tests for critical functionality\<newline>'' @
               ''- Follow security best practices for the platform''
            ) @
            (if auth (patterns projectInfo) = Some ''Firebase Authentication'' then
               ''\<newline>'' @
               ''\<newline>'' @
               ''Firebase Best Practices:\<newline>'' @
               ''\<newline>'' @
               ''- Use Firebase Authentication for secure user management\<newline>'' @
               ''- Implement proper Firebase Security Rules for data protection\<newline>'' @
               ''- Utilize Firebase Firestore for efficient data storage\<newline>'' @
               ''- Implement proper error handling and offline support with Firebase\<newline>'' @
               ''- Use Firebase Performance Monitoring for identifying and fixing performance issues''
             else []) @
            (if ui (patterns projectInfo) = Some ''Tailwind CSS'' then
               ''\<newline>'' @
               ''\<newline>'' @
               ''Tailwind CSS Best Practices:\<newline>'' @
               ''\<newline>'' @
               ''- Use Tailwind CSS for efficient and consistent styling\<newline>'' @
               ''- Implement proper responsive design using Tailwind's utility classes\<newline>'' @
               ''- Utilize Tailwind's custom configuration for project-specific styles\<newline>'' @
               ''- Implement proper accessibility practices with Tailwind's focus and screen reader classes\<newline>'' @
               ''- Use Tailwind's component extraction patterns for reusable UI elements''
             else [])
      in
      ''---\<newline>'' @
      ''description: Best practices to implement for the tech stack used\<newline>'' @
      ''globs: \<newline>'' @
      ''---\<newline>'' @
      practices @ ''\<newline>'' @
      ''\<newline>'' @
      ''General Standards:\<newline>'' @
      ''\<newline>'' @
      ''- Keep components small and focused for better maintainability\<newline>'' @
      ''- Follow proper state management patterns\<newline>'' @
      ''- Implement proper testing practices with unit and integration tests\<newline>'' @
      ''- Use linting and formatting tools for consistent code style and quality\<newline>'' @
      ''- Implement proper error handling and logging throughout the application\<newline>'')"

definition createBestPracticesRule :: "world \<Rightarrow> profile \<Rightarrow> error + world" where
  "createBestPracticesRule w projectInfo =
     (let rulePath = path_join (platform w) [rulesDirName, ''best-practices.mdc'']
      in if existsSync w rulePath then Inr w
         else writeFileSync w rulePath (bestPracticesContent projectInfo))"

section \<open>createMemoryFile\<close>

definition setupContent :: "profile \<Rightarrow> error + string" where
  "setupContent projectInfo =
     (let p = patterns projectInfo in
      bindE (js_String (name projectInfo)) (\<lambda>nm. Inr (
      ''MCP Memory Server successfully configured for '' @ nm @
      ''. This project uses '' @ type projectInfo @
      (if frameworks projectInfo \<noteq> [] then '' with '' @ joinStr '', '' (frameworks projectInfo) else []) @
      ''. '' @ whenSet (auth p) (\<lambda>v. ''Authentication is handled by '' @ v @ ''.'') @
      '' '' @ whenSet (dataManagement p) (\<lambda>v. ''Data management is handled by '' @ v @ ''.'') @
      '' '' @ whenSet (ui p) (\<lambda>v. ''UI is built with '' @ v @ ''.''))))"

definition memoryEntry :: "string \<Rightarrow> string \<Rightarrow> string \<Rightarrow> json" where
  "memoryEntry i t c =
     JObject [(''id'', JString i), (''timestamp'', JString t), (''content'', JString c)]"

text \<open>
  The clock is read once for each entry, in the order of the array; the content of
  the first entry is built after its timestamp, so a name that cannot be rendered
  throws after the first reading of the clock and before the second.
\<close>

definition createMemoryFile :: "world \<Rightarrow> runtime \<Rightarrow> profile \<Rightarrow> string \<Rightarrow> error + world" where
  "createMemoryFile w rt projectInfo projectContext =
     (let memoryPath = path_join (platform w) [memoryDirName, memoryFileName];
          (t1, w1) = new_Date w
      in bindE (setupContent projectInfo) (\<lambda>content.
           let (t2, w2) = new_Date w1;
               initialMemory = JObject [(''entries'', JArray
                 [memoryEntry ''initial-setup'' (toISOString rt t1) content,
                  memoryEntry ''project-context'' (toISOString rt t2) projectContext])]
           in writeFileSync w2 memoryPath (JSON_stringify initialMemory)))"

section \<open>createCursorWorkspaceSettings\<close>




section \<open>installMCPServer\<close>

definition mcpScript :: string where
  "mcpScript = ''modelcontextprotocol-memory-server --port '' @ mcpPort"

text \<open>
  \<open>scripts.mcp = ...\<close> on a truthy \<open>scripts\<close>, as \<open>JSON.stringify\<close> will see it: an
  object takes the property; an array takes it too, but only its elements are
  written out; on a string, a number or \<open>true\<close> the assignment does nothing (the
  script is not in strict mode).
\<close>

fun withMcp :: "json \<Rightarrow> json" where
  "withMcp (JObject scripts) = JObject (AList.update ''mcp'' (JString mcpScript) scripts)"
| "withMcp v = v"

text \<open>
  The two assignments between the parse and the write. A manifest that is an array
  takes both as properties that are not written out; on \<open>null\<close> the read of
  \<open>scripts\<close> throws; on a string, a number or a boolean \<open>scripts\<close> stays \<open>undefined\<close>
  and the second assignment throws.
\<close>

fun addMcpScript :: "json \<Rightarrow> error + json" where
  "addMcpScript (JObject kvs) =
     (let scripts = (case map_of kvs ''scripts'' of
                       None \<Rightarrow> JObject []
                     | Some v \<Rightarrow> if truthy v then v else JObject [])
      in Inr (JObject (AList.update ''scripts'' (withMcp scripts) kvs)))"
| "addMcpScript (JArray xs) = Inr (JArray xs)"
| "addMcpScript v = Inl TypeError"

text \<open>The body of the \<open>try\<close>.\<close>

definition npmSteps :: "world \<Rightarrow> runtime \<Rightarrow> error + world" where
  "npmSteps w rt =
     bindE (if \<not> existsSync w ''package.json'' then execSync rt ''npm init -y'' w else Inr w) (\<lambda>w1.
       execSync rt ''npm install --save-dev @modelcontextprotocol/server-memory'' w1)"

definition rewriteManifest :: "world \<Rightarrow> runtime \<Rightarrow> error + world" where
  "rewriteManifest w rt =
     bindE (readFileSync w ''package.json'') (\<lambda>s.
     bindE (parseJSON rt s) (\<lambda>packageJson.
     bindE (addMcpScript packageJson) (\<lambda>updated.
       writeFileSync w ''package.json'' (JSON_stringify updated))))"

definition installMCPServer :: "world \<Rightarrow> runtime \<Rightarrow> error + world" where
  "installMCPServer w rt =
     (case bindE (npmSteps w rt) (\<lambda>w2. rewriteManifest w2 rt) of
        Inl e \<Rightarrow> Inl (SetupError e)
      | Inr w' \<Rightarrow> Inr w')"

section \<open>configureCursor\<close>




section \<open>Tables and inputs of the theorems\<close>

subsection \<open>The dependency table of a manifest\<close>

text \<open>\<open>v.k\<close> where no error is at stake: \<open>undefined\<close> on \<open>null\<close> too.\<close>

definition propOf :: "json \<Rightarrow> string \<Rightarrow> json option" where
  "propOf v k = (case getProp v k of Inl e \<Rightarrow> None | Inr x \<Rightarrow> x)"

text \<open>The merged table \<open>deps\<close> that \<open>analyzeProject\<close> builds from a parsed manifest.\<close>

definition depsOf :: "json \<Rightarrow> (string \<times> json) list" where
  "depsOf packageJson =
     mergeDeps (propOf packageJson ''dependencies'') (propOf packageJson ''devDependencies'')"

text \<open>
  The keys that the authentication chain of \<open>analyzeProject\<close> tests, each with the
  label its branch assigns, and the keys that the primary chain tests.
\<close>

definition authLibraries :: "(string \<times> string) list" where
  "authLibraries =
     [(''firebase'', ''Firebase Authentication''), (''firebase-admin'', ''Firebase Authentication''),
      (''auth0'', ''Auth0''), (''@clerk/nextjs'', ''Clerk''), (''@clerk/clerk-react'', ''Clerk''),
      (''next-auth'', ''NextAuth.js''), (''passport'', ''Passport.js''), (''keycloak'', ''Keycloak'')]"

definition primaryKeys :: "string list" where
  "primaryKeys = [''react'', ''vue'', ''angular'', ''svelte'', ''express'', ''koa'', ''hapi'', ''fastify'']"

subsection \<open>Output paths and fixed parts of the documents\<close>

definition projectRulePath :: "platform \<Rightarrow> string" where
  "projectRulePath pf = path_join pf [rulesDirName, ''project-rules.mdc'']"

definition bestPracticesPath :: "platform \<Rightarrow> string" where
  "bestPracticesPath pf = path_join pf [rulesDirName, ''best-practices.mdc'']"

definition settingsPath :: "platform \<Rightarrow> string" where
  "settingsPath pf = path_join pf [''.cursor'', ''settings.json'']"

definition memoryPath :: "platform \<Rightarrow> string" where
  "memoryPath pf = path_join pf [memoryDirName, memoryFileName]"


text \<open>The front matter of the project rule with the React and Next.js globs.\<close>

definition reactFrontMatter :: string where
  "reactFrontMatter =
     ''---\<newline>'' @
     ''description: Main project rules and context\<newline>'' @
     ''globs: \"**/*.{ts,tsx,js,jsx}\"\<newline>'' @
     ''---\<newline>''"

text \<open>What stands before and after the practices in the best-practices rule.\<close>

definition practicesFront :: string where
  "practicesFront =
     ''---\<newline>'' @
     ''description: Best practices to implement for the tech stack used\<newline>'' @
     ''globs: \<newline>'' @
     ''---\<newline>''"

definition practicesBack :: string where
  "practicesBack =
     ''\<newline>'' @
     ''\<newline>'' @
     ''General Standards:\<newline>'' @
     ''\<newline>'' @
     ''- Keep components small and focused for better maintainability\<newline>'' @
     ''- Follow proper state management patterns\<newline>'' @
     ''- Implement proper testing practices with unit and integration tests\<newline>'' @
     ''- Use linting and formatting tools for consistent code style and quality\<newline>'' @
     ''- Implement proper error handling and logging throughout the application\<newline>''"

text \<open>
  The practices as a lookup table from the type, with the text for a type that is
  not in the table, and the two additions.
\<close>

definition practiceTemplates :: "(string \<times> string) list" where
  "practiceTemplates =
     [(''Next.js'',
        ''\<newline>'' @
        ''Next.js Best Practices:\<newline>'' @
        ''\<newline>'' @
        ''- Utilize Next.js App Router for improved performance and easier data fetching\<newline>'' @
        ''- Implement proper error boundaries to handle and display errors gracefully\<newline>'' @
        ''- Use suspense and concurrent features for efficient data fetching and rendering\<newline>'' @
        ''- Leverage Next.js built-in optimizations like code splitting and image optimization\<newline>'' @
        ''- Implement proper server-side rendering and static generation where appropriate\<newline>'' @
        ''\<newline>'' @
        ''React Best Practices:\<newline>'' @
        ''\<newline>'' @
        ''- Use functional components and hooks instead of class components for better code organization\<newline>'' @
        ''- Implement proper use of React.memo and useMemo for performance optimization\<newline>'' @
        ''- Follow the React hooks rules strictly to avoid common pitfalls\<newline>'' @
        ''- Utilize context API for efficient state management across components\<newline>'' @
        ''- Implement proper prop type validation for better code maintainability''),
      (''React'',
        ''\<newline>'' @
        ''React Best Practices:\<newline>'' @
        ''\<newline>'' @
        ''- Use functional components and hooks instead of class components for better code organization\<newline>'' @
        ''- Implement proper use of React.memo and useMemo for performance optimization\<newline>'' @
        ''- Follow the React hooks rules strictly to avoid common pitfalls\<newline>'' @
        ''- Utilize context API for efficient state management across components\<newline>'' @
        ''- Implement proper prop type validation for better code maintainability''),
      (''Vue'',
        ''\<newline>'' @
        ''Vue Best Practices:\<newline>'' @
        ''\<newline>'' @
        ''- Use Vue Composition API for better code organization and reusability\<newline>'' @
        ''- Implement proper component structure with clear separation of concerns\<newline>'' @
        ''- Follow Vue's official style guide for consistent code style\<newline>'' @
        ''- Utilize Vue's reactivity system efficiently\<newline>'' @
        ''- Implement proper error handling and form validation''),
      (''Angular'',
        ''\<newline>'' @
        ''Angular Best Practices:\<newline>'' @
        ''\<newline>'' @
        ''- Follow Angular's official style guide for consistent code style\<newline>'' @
        ''- Implement proper component design with clear inputs and outputs\<newline>'' @
        ''- Utilize Angular's dependency injection system effectively\<newline>'' @
        ''- Implement proper error handling and validation\<newline>'' @
        ''- Use Angular's change detection strategies for performance optimization''),
      (''Python'',
        ''\<newline>'' @
        ''Python Best Practices:\<newline>'' @
        ''\<newline>'' @
        ''- Follow PEP 8 style guide for consistent code style\<newline>'' @
        ''- Use type hints for better code documentation and tooling\<newline>'' @
        ''- Implement proper error handling with try/except blocks\<newline>'' @
        ''- Use context managers for resource management\<newline>'' @
        ''- Implement proper logging for debugging and monitoring'')]"

definition generalTemplate :: string where
  "generalTemplate =
     ''\<newline>'' @
     ''General Best Practices:\<newline>'' @
     ''\<newline>'' @
     ''- Follow consistent code style and formatting\<newline>'' @
     ''- Implement proper error handling and validation\<newline>'' @
     ''- Write clear and comprehensive documentation\<newline>'' @
     ''- Use meaningful variable and function names\<newline>'' @
     ''- Write unit tests for critical functionality\<newline>'' @
     ''- Follow security best practices for the platform''"

definition templateFor :: "string \<Rightarrow> string" where
  "templateFor ty = (case map_of practiceTemplates ty of Some t \<Rightarrow> t | None \<Rightarrow> generalTemplate)"

definition firebaseFragment :: string where
  "firebaseFragment =
     ''\<newline>'' @
     ''\<newline>'' @
     ''Firebase Best Practices:\<newline>'' @
     ''\<newline>'' @
     ''- Use Firebase Authentication for secure user management\<newline>'' @
     ''- Implement proper Firebase Security Rules for data protection\<newline>'' @
     ''- Utilize Firebase Firestore for efficient data storage\<newline>'' @
     ''- Implement proper error handling and offline support with Firebase\<newline>'' @
     ''- Use Firebase Performance Monitoring for identifying and fixing performance issues''"

definition tailwindFragment :: string where
  "tailwindFragment =
     ''\<newline>'' @
     ''\<newline>'' @
     ''Tailwind CSS Best Practices:\<newline>'' @
     ''\<newline>'' @
     ''- Use Tailwind CSS for efficient and consistent styling\<newline>'' @
     ''- Implement proper responsive design using Tailwind's utility classes\<newline>'' @
     ''- Utilize Tailwind's custom configuration for project-specific styles\<newline>'' @
     ''- Implement proper accessibility practices with Tailwind's focus and screen reader classes\<newline>'' @
     ''- Use Tailwind's component extraction patterns for reusable UI elements''"

subsection \<open>The steps before the structure scan\<close>

text \<open>
  What \<open>analyzeProject\<close> has detected when it enters its last step: every field of
  the profile but the four structural flags and \<open>componentPattern\<close>.
\<close>

definition detected ::
  "profile \<Rightarrow> json \<times> string \<times> string list \<times> patterns \<times> string list \<times> string list \<times> bool \<times> string option" where
  "detected p =
     (name p, type p, frameworks p, patterns p, testing p, config p, isMonorepo p, repoRoot p)"

text \<open>\<open>analyzeProject\<close> up to the \<open>try\<close> block of the structure scan.\<close>

definition stepsBefore :: "world \<Rightarrow> runtime \<Rightarrow> error + profile" where
  "stepsBefore w rt =
     (let p0 = (initialProfile w)\<lparr>repoRoot := findRepoRoot w\<rparr> in
      bindE (monorepoMarker w rt) (\<lambda>m.
        let p1 = p0\<lparr>isMonorepo := (if m then True else isMonorepo p0)\<rparr>;
            p2 = p1\<lparr>config := config p1 @ filter (existsSync w) configFiles\<rparr>
        in primaryDetection w rt p2))"

subsection \<open>Well-formed JSON text\<close>

text \<open>
  The grammar of JSON texts (RFC 8259): white space, the characters of a string
  between its quotes, numbers, and values with the elements of an array and the
  members of an object.
\<close>

definition ws :: "string \<Rightarrow> bool" where
  "ws s = list_all (\<lambda>c. c = CHR '' '' \<or> c = CHR 0x09 \<or> c = CHR 0x0A \<or> c = CHR 0x0D) s"

definition hex_char :: "char \<Rightarrow> bool" where
  "hex_char c = (c \<in> set ''0123456789abcdefABCDEF'')"

definition digits :: "string \<Rightarrow> bool" where
  "digits s = (s \<noteq> [] \<and> list_all (\<lambda>c. c \<in> set ''0123456789'') s)"

inductive json_chars :: "string \<Rightarrow> bool" where
  chars_end: "json_chars []"
| chars_plain: "32 \<le> (of_char c :: nat) \<Longrightarrow> c \<noteq> CHR 0x22 \<Longrightarrow> c \<noteq> CHR 0x5C \<Longrightarrow> json_chars cs
     \<Longrightarrow> json_chars (c # cs)"
| chars_escape: "e \<in> set [CHR 0x22, CHR 0x5C, CHR ''/'', CHR ''b'', CHR ''f'', CHR ''n'', CHR ''r'', CHR ''t'']
     \<Longrightarrow> json_chars cs \<Longrightarrow> json_chars (CHR 0x5C # e # cs)"
| chars_unicode: "hex_char a \<Longrightarrow> hex_char b \<Longrightarrow> hex_char c \<Longrightarrow> hex_char d \<Longrightarrow> json_chars cs
     \<Longrightarrow> json_chars (CHR 0x5C # CHR ''u'' # a # b # c # d # cs)"

definition json_number :: "string \<Rightarrow> bool" where
  "json_number s =
     (\<exists>sign int frac ex.
        s = sign @ int @ frac @ ex
        \<and> (sign = [] \<or> sign = ''-'')
        \<and> digits int \<and> (hd int = CHR ''0'' \<longrightarrow> int = ''0'')
        \<and> (frac = [] \<or> (\<exists>ds. frac = CHR ''.'' # ds \<and> digits ds))
        \<and> (ex = [] \<or> (\<exists>e sg ds. ex = e # sg @ ds \<and> (e = CHR ''e'' \<or> e = CHR ''E'')
               \<and> (sg = [] \<or> sg = ''-'' \<or> sg = ''+'') \<and> digits ds)))"

inductive json_value :: "string \<Rightarrow> bool"
  and json_elements :: "string \<Rightarrow> bool"
  and json_members :: "string \<Rightarrow> bool" where
  value_null: "json_value ''null''"
| value_true: "json_value ''true''"
| value_false: "json_value ''false''"
| value_number: "json_number s \<Longrightarrow> json_value s"
| value_string: "json_chars s \<Longrightarrow> json_value (CHR 0x22 # s @ [CHR 0x22])"
| value_empty_array: "ws a \<Longrightarrow> json_value (CHR ''['' # a @ '']'')"
| value_array: "json_elements s \<Longrightarrow> json_value (CHR ''['' # s @ '']'')"
| value_empty_object: "ws a \<Longrightarrow> json_value (CHR ''{'' # a @ ''}'')"
| value_object: "json_members s \<Longrightarrow> json_value (CHR ''{'' # s @ ''}'')"
| elements_last: "ws a \<Longrightarrow> json_value v \<Longrightarrow> ws b \<Longrightarrow> json_elements (a @ v @ b)"
| elements_more: "ws a \<Longrightarrow> json_value v \<Longrightarrow> ws b \<Longrightarrow> json_elements rest
     \<Longrightarrow> json_elements (a @ v @ b @ CHR '','' # rest)"
| members_last: "ws a \<Longrightarrow> json_chars k \<Longrightarrow> ws b \<Longrightarrow> ws c \<Longrightarrow> json_value v \<Longrightarrow> ws d
     \<Longrightarrow> json_members (a @ CHR 0x22 # k @ CHR 0x22 # b @ CHR '':'' # c @ v @ d)"
| members_more: "ws a \<Longrightarrow> json_chars k \<Longrightarrow> ws b \<Longrightarrow> ws c \<Longrightarrow> json_value v \<Longrightarrow> ws d
     \<Longrightarrow> json_members rest
     \<Longrightarrow> json_members (a @ CHR 0x22 # k @ CHR 0x22 # b @ CHR '':'' # c @ v @ d @ CHR '','' # rest)"

definition json_text :: "string \<Rightarrow> bool" where
  "json_text s = (\<exists>a v b. s = a @ v @ b \<and> ws a \<and> json_value v \<and> ws b)"

text \<open>Every number in the value is kept as a text of the number grammar.\<close>

fun numbers_ok :: "json \<Rightarrow> bool" where
  "numbers_ok (JNumber n) = json_number n"
| "numbers_ok (JArray xs) = list_all numbers_ok xs"
| "numbers_ok (JObject kvs) = list_all (\<lambda>kv. numbers_ok (snd kv)) kvs"
| "numbers_ok v = True"

subsection \<open>Concrete inputs\<close>

text \<open>
  A Linux working directory \<open>/home/dev/app\<close> that holds the given directories
  and files, the files readable, where nothing refuses a write and the clock stands one
  second after the epoch; and a runtime whose \<open>JSON.parse\<close> is the given table
  from texts to values, whose \<open>toISOString\<close> is right for the first ten seconds
  of 1970, and whose \<open>execSync\<close> leaves the file system alone.
\<close>

definition demoTree :: "string list \<Rightarrow> (string \<times> string) list \<Rightarrow> world" where
  "demoTree dirs files =
     \<lparr>platform = OtherOS, root = ''/'', cwd = [''home'', ''dev'', ''app''],
      homedir = ''/home/dev'', APPDATA = None,
      existsSync = (\<lambda>p. p \<in> set dirs \<or> map_of files p \<noteq> None),
      readFileSync = (\<lambda>p. if p \<in> set dirs then Inl (SystemError ''EISDIR'')
                          else case map_of files p of
                                 None \<Rightarrow> Inl (SystemError ''ENOENT'')
                               | Some c \<Rightarrow> Inr c),
      readdirSync = (\<lambda>p. if p = ''.'' then Inr (filter (\<lambda>n. CHR ''/'' \<notin> set n) (dirs @ map fst files))
                          else Inl (SystemError ''ENOENT'')),
      statSync = (\<lambda>p. if p \<in> set dirs then Inr IsDirectory
                      else if map_of files p = None then Inl (SystemError ''ENOENT'')
                      else Inr IsFile),
      refuse = (\<lambda>p. None), now = 1000, tick = (\<lambda>t. 1)\<rparr>"

definition demoWorld :: "(string \<times> string) list \<Rightarrow> world" where
  "demoWorld files = demoTree [] files"

definition demoISO :: "nat \<Rightarrow> string" where
  "demoISO t =
     ''1970-01-01T00:00:0'' @ [''0123456789'' ! (t div 1000 mod 10)] @ ''.'' @
     [''0123456789'' ! (t div 100 mod 10), ''0123456789'' ! (t div 10 mod 10), ''0123456789'' ! (t mod 10)] @
     ''Z''"

definition demoRuntime :: "(string \<times> json) list \<Rightarrow> runtime" where
  "demoRuntime table = \<lparr>JSON_parse = map_of table, toISOString = demoISO, execSync = (\<lambda>cmd w. Inr w)\<rparr>"

text \<open>Manifests, each as its text and as the value the text parses to.\<close>

definition nextText :: string where
  "nextText = ''{\"dependencies\":{\"react\":\"*\",\"next\":\"*\"}}''"

definition nextManifest :: json where
  "nextManifest = JObject [(''dependencies'', JObject [(''react'', JString ''*''), (''next'', JString ''*'')])]"

definition nextEmptyText :: string where
  "nextEmptyText = ''{\"dependencies\":{\"react\":\"\",\"next\":\"\"}}''"

definition nextEmptyManifest :: json where
  "nextEmptyManifest = JObject [(''dependencies'', JObject [(''react'', JString []), (''next'', JString [])])]"

definition auth0Text :: string where
  "auth0Text = ''{\"dependencies\":{\"auth0\":\"^4.0.0\"}}''"

definition auth0Manifest :: json where
  "auth0Manifest = JObject [(''dependencies'', JObject [(''auth0'', JString ''^4.0.0'')])]"

definition auth0EmptyText :: string where
  "auth0EmptyText = ''{\"dependencies\":{\"auth0\":\"\"}}''"

definition auth0EmptyManifest :: json where
  "auth0EmptyManifest = JObject [(''dependencies'', JObject [(''auth0'', JString [])])]"

definition firebaseText :: string where
  "firebaseText = ''{\"dependencies\":{\"firebase\":\"^10.7.0\",\"auth0\":\"^4.0.0\",\"prisma\":\"^5.0.0\"}}''"

definition firebaseManifest :: json where
  "firebaseManifest = JObject [(''dependencies'', JObject
     [(''firebase'', JString ''^10.7.0''), (''auth0'', JString ''^4.0.0''), (''prisma'', JString ''^5.0.0'')])]"

definition firebaseEmptyText :: string where
  "firebaseEmptyText = ''{\"dependencies\":{\"firebase\":\"\",\"auth0\":\"^4.0.0\",\"prisma\":\"^5.0.0\"}}''"

definition firebaseEmptyManifest :: json where
  "firebaseEmptyManifest = JObject [(''dependencies'', JObject
     [(''firebase'', JString []), (''auth0'', JString ''^4.0.0''), (''prisma'', JString ''^5.0.0'')])]"

definition manifests :: "(string \<times> json) list" where
  "manifests =
     [(nextText, nextManifest), (nextEmptyText, nextEmptyManifest),
      (auth0Text, auth0Manifest), (auth0EmptyText, auth0EmptyManifest),
      (firebaseText, firebaseManifest), (firebaseEmptyText, firebaseEmptyManifest)]"





text \<open>The working directory that holds nothing but the manifest.\<close>

definition manifestWorld :: "string \<Rightarrow> world" where
  "manifestWorld text = demoWorld [(''package.json'', text)]"


text \<open>
  A Python project whose script \<open>server.py\<close> creates a Flask application; and a
  React workspace below a repository root, with directories \<open>features\<close> and
  \<open>tests\<close>, the manifest as text and as value.
\<close>

definition flaskWorld :: world where
  "flaskWorld = demoWorld [(''requirements.txt'', ''flask''), (''server.py'', ''app = Flask(__name__)'')]"

definition workspaceText :: string where
  "workspaceText = ''{\"name\":\"shop\",\"workspaces\":[\"packages/*\"],\"dependencies\":{\"react\":\"^18.2.0\"},\"devDependencies\":{\"jest\":\"^29.0.0\"}}''"

definition workspaceManifest :: json where
  "workspaceManifest =
     JObject [(''name'', JString ''shop''), (''workspaces'', JArray [JString ''packages/*'']),
              (''dependencies'', JObject [(''react'', JString ''^18.2.0'')]),
              (''devDependencies'', JObject [(''jest'', JString ''^29.0.0'')])]"

definition workspaceWorld :: world where
  "workspaceWorld =
     demoTree [''/home/dev/.git'', ''features'', ''tests'']
       [(''package.json'', workspaceText), (''tsconfig.json'', ''{}'')]"



text \<open>A Next.js manifest with a name, as text and as value.\<close>

definition shopText :: string where
  "shopText = ''{\"name\":\"shop\",\"dependencies\":{\"react\":\"^18.2.0\",\"next\":\"14.0.0\"}}''"

definition shopManifest :: json where
  "shopManifest =
     JObject [(''name'', JString ''shop''),
              (''dependencies'', JObject [(''react'', JString ''^18.2.0''), (''next'', JString ''14.0.0'')])]"

text \<open>
  A manifest whose \<open>name\<close> is no string but an object with a property \<open>toString\<close>,
  as text and as value.
\<close>

definition objectNameText :: string where
  "objectNameText = ''{\"name\":{\"toString\":1},\"dependencies\":{\"react\":\"*\",\"next\":\"*\"}}''"

definition objectNameManifest :: json where
  "objectNameManifest =
     JObject [(''name'', JObject [(''toString'', JNumber ''1'')]),
              (''dependencies'', JObject [(''react'', JString ''*''), (''next'', JString ''*'')])]"

text \<open>
  A project context with Windows line ends, quotes, a tab, a backslash and control
  characters.
\<close>

definition notesContext :: string where
  "notesContext =
     ''# Notes'' @ [CHR 0x0D, CHR 0x0A] @ ''Run \"npm test\"'' @ [CHR 0x09] @ ''in C:'' @ [CHR 0x5C] @
     ''app'' @ [CHR 0x08, CHR 0x0C, CHR 0x1B] @ ''[0m''"

text \<open>A profile with every pattern slot set, Firebase and Tailwind among them.\<close>

definition shopProfile :: profile where
  "shopProfile =
     \<lparr>name = JString ''shop'', type = ''Next.js'',
      frameworks = [''React'', ''Next.js'', ''Firebase''],
      patterns = \<lparr>auth = Some ''Firebase Authentication'',
                   dataManagement = Some ''Firebase Firestore'', ui = Some ''Tailwind CSS''\<rparr>,
      testing = [''Jest''], config = [''tsconfig.json''], isMonorepo = False, repoRoot = None,
      hasSourceDir = True, hasTestsDir = False, hasDocsDir = False,
      hasScriptsDir = False, componentPattern = None\<rparr>"

text \<open>The profile of a directory that is not recognised.\<close>

definition bareProfile :: profile where
  "bareProfile =
     \<lparr>name = JString ''app'', type = ''unknown'', frameworks = [],
      patterns = \<lparr>auth = None, dataManagement = None, ui = None\<rparr>,
      testing = [], config = [], isMonorepo = False, repoRoot = None,
      hasSourceDir = False, hasTestsDir = False, hasDocsDir = False,
      hasScriptsDir = False, componentPattern = None\<rparr>"

section \<open>Properties\<close>

subsection \<open>Auxiliary facts\<close>

lemma bindE_Inl [simp]: "bindE (Inl e) f = Inl e"
  by (simp add: bindE_def)

lemma bindE_Inr [simp]: "bindE (Inr x) f = f x"
  by (simp add: bindE_def)

text \<open>The structure scan touches only the structural fields.\<close>

lemma structureScan_type [simp]: "type (structureScan w p) = type p"
  by (simp add: structureScan_def Let_def split: sum.splits)

lemma structureScan_frameworks [simp]: "frameworks (structureScan w p) = frameworks p"
  by (simp add: structureScan_def Let_def split: sum.splits)

lemma structureScan_patterns [simp]: "patterns (structureScan w p) = patterns p"
  by (simp add: structureScan_def Let_def split: sum.splits)

lemma structureScan_name [simp]: "name (structureScan w p) = name p"
  by (simp add: structureScan_def Let_def split: sum.splits)

lemma structureScan_detected [simp]: "detected (structureScan w p) = detected p"
  by (simp add: structureScan_def detected_def Let_def split: sum.splits)


lemma getProp_nonnull: "pj \<noteq> JNull \<Longrightarrow> getProp pj k = Inr (propOf pj k)"
  by (cases pj) (simp_all add: propOf_def)

lemma has_Nil [simp]: "\<not> has [] k"
  by (simp add: has_def truthy_opt_def)

lemma depsOf_JNull [simp]: "depsOf JNull = []"
  by (simp add: depsOf_def propOf_def mergeDeps_def assign_def)

lemma writeFileSync_ok:
  "refuse w p = None \<Longrightarrow>
     \<exists>w'. writeFileSync w p c = Inr w' \<and> readFileSync w' p = Inr c \<and> existsSync w' p
       \<and> platform w' = platform w \<and> refuse w' = refuse w
       \<and> (\<forall>q. q \<noteq> p \<longrightarrow> readFileSync w' q = readFileSync w q \<and> existsSync w' q = existsSync w q)"
  by (simp add: writeFileSync_def)

text \<open>The output paths on every platform but Windows.\<close>

lemma paths_posix:
  "pf \<noteq> Win32 \<Longrightarrow> projectRulePath pf = ''.cursor/rules/project-rules.mdc''"
  "pf \<noteq> Win32 \<Longrightarrow> bestPracticesPath pf = ''.cursor/rules/best-practices.mdc''"
  "pf \<noteq> Win32 \<Longrightarrow> settingsPath pf = ''.cursor/settings.json''"
  "pf \<noteq> Win32 \<Longrightarrow> memoryPath pf = ''.mcp/ai_memory.json''"
  by (simp_all add: projectRulePath_def bestPracticesPath_def settingsPath_def memoryPath_def
      path_join_def sep_def rulesDirName_def memoryDirName_def memoryFileName_def)

text \<open>
  The manifest branch, from a manifest that can be read and parses to anything but
  \<open>null\<close>: the analysis succeeds, and type, frameworks and pattern slots are what
  the chains find in the merged table.
\<close>

lemma fromManifest_fields:
  assumes "pj \<noteq> JNull"
    and "patterns p = \<lparr>auth = None, dataManagement = None, ui = None\<rparr>"
  shows "\<exists>q. fromManifest pj p = Inr q
           \<and> type q = (case fst (detectPrimary (depsOf pj)) of Some t \<Rightarrow> t | None \<Rightarrow> type p)
           \<and> frameworks q = frameworks p @ snd (detectPrimary (depsOf pj)) @ detectState (depsOf pj)
                @ snd (detectAuth (depsOf pj))
           \<and> patterns q = \<lparr>auth = fst (detectAuth (depsOf pj)), dataManagement = detectData (depsOf pj),
                            ui = detectUI (depsOf pj)\<rparr>"
  using assms
  by (simp add: fromManifest_def getProp_nonnull depsOf_def Let_def split: prod.splits option.splits)

text \<open>The name after the manifest branch, and the fields the branch leaves alone.\<close>

lemma fromManifest_name:
  assumes "fromManifest pj p = Inr q"
  shows "name q = (case propOf pj ''name'' of Some v \<Rightarrow> if truthy v then v else name p | None \<Rightarrow> name p)"
    and "hasSourceDir q = hasSourceDir p" and "hasTestsDir q = hasTestsDir p"
    and "hasDocsDir q = hasDocsDir p" and "hasScriptsDir q = hasScriptsDir p"
    and "componentPattern q = componentPattern p"
proof -
  have nn: "pj \<noteq> JNull" using assms by (auto simp add: fromManifest_def)
  have q: "q = p\<lparr>name := (case propOf pj ''name'' of Some v \<Rightarrow> if truthy v then v else name p | None \<Rightarrow> name p),
                 testing := testing q, type := type q, frameworks := frameworks q, patterns := patterns q\<rparr>"
    using assms
    by (simp add: fromManifest_def getProp_nonnull [OF nn] Let_def split_def) (erule subst, simp)
  show "name q = (case propOf pj ''name'' of Some v \<Rightarrow> if truthy v then v else name p | None \<Rightarrow> name p)"
    by (subst q) simp
  show "hasSourceDir q = hasSourceDir p" by (subst q) simp
  show "hasTestsDir q = hasTestsDir p" by (subst q) simp
  show "hasDocsDir q = hasDocsDir p" by (subst q) simp
  show "hasScriptsDir q = hasScriptsDir p" by (subst q) simp
  show "componentPattern q = componentPattern p" by (subst q) simp
qed

lemma analyzeProject_manifest:
  assumes "existsSync w ''package.json''"
    and "readFileSync w ''package.json'' = Inr s"
    and "JSON_parse rt s = Some pj"
    and "pj \<noteq> JNull"
  shows "\<exists>p. analyzeProject w rt = Inr p
           \<and> type p = (case fst (detectPrimary (depsOf pj)) of Some t \<Rightarrow> t | None \<Rightarrow> ''unknown'')
           \<and> frameworks p = snd (detectPrimary (depsOf pj)) @ detectState (depsOf pj) @ snd (detectAuth (depsOf pj))
           \<and> patterns p = \<lparr>auth = fst (detectAuth (depsOf pj)), dataManagement = detectData (depsOf pj),
                            ui = detectUI (depsOf pj)\<rparr>"
proof -
  have "\<exists>b. monorepoMarker w rt = Inr b"
    using assms by (auto simp add: monorepoMarker_def parseJSON_def getProp_nonnull)
  then obtain b where b: "monorepoMarker w rt = Inr b" ..
  define p2 where "p2 = (initialProfile w)\<lparr>repoRoot := findRepoRoot w, isMonorepo := b,
    config := filter (existsSync w) configFiles\<rparr>"
  have p2: "type p2 = ''unknown''" "frameworks p2 = []"
    "patterns p2 = \<lparr>auth = None, dataManagement = None, ui = None\<rparr>"
    by (simp_all add: p2_def initialProfile_def)
  obtain q where q: "fromManifest pj p2 = Inr q"
    and qt: "type q = (case fst (detectPrimary (depsOf pj)) of Some t \<Rightarrow> t | None \<Rightarrow> type p2)"
    and qf: "frameworks q = frameworks p2 @ snd (detectPrimary (depsOf pj)) @ detectState (depsOf pj)
                @ snd (detectAuth (depsOf pj))"
    and qp: "patterns q = \<lparr>auth = fst (detectAuth (depsOf pj)), dataManagement = detectData (depsOf pj),
                            ui = detectUI (depsOf pj)\<rparr>"
    using fromManifest_fields [OF assms(4) p2(3)] by blast
  have "analyzeProject w rt = Inr (structureScan w q)"
    using assms(1,2,3) q
    by (cases b) (simp_all add: analyzeProject_def b primaryDetection_def parseJSON_def p2_def
        initialProfile_def Let_def)
  then show ?thesis using qt qf qp p2(1,2) by (simp split: option.splits)
qed

lemma analyzeProject_manifest_name:
  assumes "existsSync w ''package.json''"
    and "readFileSync w ''package.json'' = Inr s"
    and "JSON_parse rt s = Some pj"
    and "pj \<noteq> JNull"
  shows "\<exists>p. analyzeProject w rt = Inr p
           \<and> name p = (case propOf pj ''name'' of
                         Some v \<Rightarrow> if truthy v then v else JString (cwd_basename w)
                       | None \<Rightarrow> JString (cwd_basename w))"
proof -
  have "\<exists>b. monorepoMarker w rt = Inr b"
    using assms by (auto simp add: monorepoMarker_def parseJSON_def getProp_nonnull)
  then obtain b where b: "monorepoMarker w rt = Inr b" ..
  define p2 where "p2 = (initialProfile w)\<lparr>repoRoot := findRepoRoot w, isMonorepo := b,
    config := filter (existsSync w) configFiles\<rparr>"
  have p2: "name p2 = JString (cwd_basename w)"
    "patterns p2 = \<lparr>auth = None, dataManagement = None, ui = None\<rparr>"
    by (simp_all add: p2_def initialProfile_def)
  obtain q where q: "fromManifest pj p2 = Inr q"
    using fromManifest_fields [OF assms(4) p2(2)] by blast
  have "analyzeProject w rt = Inr (structureScan w q)"
    using assms(1,2,3) q
    by (cases b) (simp_all add: analyzeProject_def b primaryDetection_def parseJSON_def p2_def
        initialProfile_def Let_def)
  then show ?thesis using fromManifest_name(1) [OF q] p2(1) by (simp split: option.splits)
qed

text \<open>The project rule begins with the front matter, when the name can be rendered.\<close>

lemma projectRuleContent_front:
  "js_String (name p) = Inr n \<Longrightarrow>
     \<exists>body. projectRuleContent p =
       Inr (''---\<newline>description: Main project rules and context\<newline>globs: '' @ projectGlobs (type p)
         @ ''\<newline>---\<newline>'' @ body)"
  by (simp add: projectRuleContent_def Let_def)

text \<open>A name that cannot be rendered: both documents throw, and nothing is written.\<close>

lemma unrenderable_name:
  assumes "js_String (name p) = Inl e"
  shows "createProjectRule w p = Inl e" and "createMemoryFile w rt p ctx = Inl e"
  using assms
  by (simp_all add: createProjectRule_def projectRuleContent_def createMemoryFile_def setupContent_def
      Let_def split: prod.splits)

text \<open>The practices of a type, as the chain of \<open>createBestPracticesRule\<close> selects them.\<close>

lemma templateFor_simps:
  "templateFor ''Next.js'' = snd (practiceTemplates ! 0)"
  "templateFor ''React'' = snd (practiceTemplates ! 1)"
  "templateFor ''Vue'' = snd (practiceTemplates ! 2)"
  "templateFor ''Angular'' = snd (practiceTemplates ! 3)"
  "templateFor ''Python'' = snd (practiceTemplates ! 4)"
  "ty \<noteq> ''Next.js'' \<Longrightarrow> ty \<noteq> ''React'' \<Longrightarrow> ty \<noteq> ''Vue'' \<Longrightarrow> ty \<noteq> ''Angular'' \<Longrightarrow> ty \<noteq> ''Python''
     \<Longrightarrow> templateFor ty = generalTemplate"
  by (simp_all add: templateFor_def practiceTemplates_def)

lemma bestPracticesContent_parts:
  "bestPracticesContent p =
     practicesFront @ templateFor (type p)
       @ (if auth (patterns p) = Some ''Firebase Authentication'' then firebaseFragment else [])
       @ (if ui (patterns p) = Some ''Tailwind CSS'' then tailwindFragment else [])
       @ practicesBack"
proof -
  consider "type p = ''Next.js''" | "type p = ''React''" | "type p = ''Vue''" | "type p = ''Angular''"
    | "type p = ''Python''"
    | "type p \<noteq> ''Next.js''" "type p \<noteq> ''React''" "type p \<noteq> ''Vue''" "type p \<noteq> ''Angular''"
      "type p \<noteq> ''Python''"
    by blast
  then show ?thesis
  proof cases
    case 1
    then show ?thesis
      by (simp add: bestPracticesContent_def templateFor_simps(1) practiceTemplates_def practicesFront_def
          practicesBack_def firebaseFragment_def tailwindFragment_def Let_def)
  next
    case 2
    then show ?thesis
      by (simp add: bestPracticesContent_def templateFor_simps(2) practiceTemplates_def practicesFront_def
          practicesBack_def firebaseFragment_def tailwindFragment_def Let_def)
  next
    case 3
    then show ?thesis
      by (simp add: bestPracticesContent_def templateFor_simps(3) practiceTemplates_def practicesFront_def
          practicesBack_def firebaseFragment_def tailwindFragment_def Let_def)
  next
    case 4
    then show ?thesis
      by (simp add: bestPracticesContent_def templateFor_simps(4) practiceTemplates_def practicesFront_def
          practicesBack_def firebaseFragment_def tailwindFragment_def Let_def)
  next
    case 5
    then show ?thesis
      by (simp add: bestPracticesContent_def templateFor_simps(5) practiceTemplates_def practicesFront_def
          practicesBack_def firebaseFragment_def tailwindFragment_def Let_def)
  next
    case 6
    then show ?thesis
      by (simp add: bestPracticesContent_def templateFor_simps(6) generalTemplate_def practicesFront_def
          practicesBack_def firebaseFragment_def tailwindFragment_def Let_def)
  qed
qed




text \<open>An occurrence of a word does not reach across a character the word lacks.\<close>

lemma sublist_skip:
  assumes "c \<notin> set u" and "u \<noteq> []"
  shows "sublist u (xs @ c # ys) \<longleftrightarrow> sublist u xs \<or> sublist u ys"
proof
  assume "sublist u (xs @ c # ys)"
  then consider "sublist u xs" | "sublist u (c # ys)"
    | u1 u2 where "u = u1 @ u2" "suffix u1 xs" "prefix u2 (c # ys)"
    by (auto simp add: sublist_append)
  then show "sublist u xs \<or> sublist u ys"
  proof cases
    case 1
    then show ?thesis ..
  next
    case 2
    then have "prefix u (c # ys) \<or> sublist u ys" by (simp add: sublist_Cons_right)
    moreover have "\<not> prefix u (c # ys)"
      using assms by (cases u) (auto simp add: prefix_Cons)
    ultimately show ?thesis by simp
  next
    case 3
    have "u2 = []"
      using 3(1,3) assms(1) by (cases u2) (auto simp add: prefix_Cons)
    then have "suffix u xs" using 3(1,2) by simp
    then show ?thesis by (auto intro: suffix_imp_sublist)
  qed
next
  assume "sublist u xs \<or> sublist u ys"
  then show "sublist u (xs @ c # ys)"
  proof
    assume "sublist u xs"
    then show ?thesis by (simp add: sublist_append)
  next
    assume "sublist u ys"
    then have "sublist u (c # ys)" by (simp add: sublist_Cons_right)
    then show ?thesis by (simp add: sublist_append)
  qed
qed

lemma undefined_skip:
  "c \<notin> set ''undefined'' \<Longrightarrow>
     sublist ''undefined'' (xs @ c # ys) \<longleftrightarrow> sublist ''undefined'' xs \<or> sublist ''undefined'' ys"
  by (rule sublist_skip) simp_all

lemma undefined_Cons:
  "c \<notin> set ''undefined'' \<Longrightarrow> sublist ''undefined'' (c # ys) \<longleftrightarrow> sublist ''undefined'' ys"
  using undefined_skip [of c "[]" ys] by simp

lemma undefined_joinStr:
  assumes "\<forall>f \<in> set fs. \<not> sublist ''undefined'' f"
  shows "\<not> sublist ''undefined'' (joinStr '', '' fs)"
  using assms
proof (induction "'', ''" fs rule: joinStr.induct)
  case 1
  then show ?case by simp
next
  case (2 x)
  then show ?case by simp
next
  case (3 x y ys)
  then show ?case by (simp add: undefined_skip undefined_Cons)
qed

lemma undefined_whenSet:
  assumes "\<forall>v. slot = Some v \<longrightarrow> \<not> sublist ''undefined'' v"
    and "\<And>v. \<not> sublist ''undefined'' v \<Longrightarrow> \<not> sublist ''undefined'' (f v)"
  shows "\<not> sublist ''undefined'' (whenSet slot f)"
  using assms by (cases slot) (simp_all add: whenSet_def)

lemma setupContent_no_undefined:
  assumes "js_String (name p) = Inr n"
    and "\<not> sublist ''undefined'' n"
    and "\<not> sublist ''undefined'' (type p)"
    and "\<forall>f \<in> set (frameworks p). \<not> sublist ''undefined'' f"
    and "\<forall>v. auth (patterns p) = Some v \<longrightarrow> \<not> sublist ''undefined'' v"
    and "\<forall>v. dataManagement (patterns p) = Some v \<longrightarrow> \<not> sublist ''undefined'' v"
    and "\<forall>v. ui (patterns p) = Some v \<longrightarrow> \<not> sublist ''undefined'' v"
  shows "\<exists>c. setupContent p = Inr c \<and> \<not> sublist ''undefined'' c"
proof -
  have au: "\<not> sublist ''undefined''
      (whenSet (auth (patterns p)) (\<lambda>v. ''Authentication is handled by '' @ v @ ''.''))"
    using assms(5)
    by (rule undefined_whenSet) (simp add: undefined_skip undefined_Cons sublist_Cons_right prefix_Cons)
  have da: "\<not> sublist ''undefined''
      (whenSet (dataManagement (patterns p)) (\<lambda>v. ''Data management is handled by '' @ v @ ''.''))"
    using assms(6)
    by (rule undefined_whenSet) (simp add: undefined_skip undefined_Cons sublist_Cons_right prefix_Cons)
  have ui: "\<not> sublist ''undefined''
      (whenSet (ui (patterns p)) (\<lambda>v. ''UI is built with '' @ v @ ''.''))"
    using assms(7)
    by (rule undefined_whenSet) (simp add: undefined_skip undefined_Cons sublist_Cons_right prefix_Cons)
  have fw: "\<not> sublist ''undefined'' (joinStr '', '' (frameworks p))"
    using assms(4) by (rule undefined_joinStr)
  show ?thesis
    using assms(1,2,3) au da ui fw
    by (simp add: setupContent_def Let_def undefined_skip undefined_Cons sublist_Cons_right prefix_Cons)
qed

lemma setupContent_unset:
  assumes "js_String (name p) = Inr n"
    and "patterns p = \<lparr>auth = None, dataManagement = None, ui = None\<rparr>" and "frameworks p = []"
  shows "setupContent p =
    Inr (''MCP Memory Server successfully configured for '' @ n @
         ''. This project uses '' @ type p @ ''.   '')"
  using assms by (simp add: setupContent_def whenSet_def)

lemma setupContent_ok: "js_String (name p) = Inr n \<Longrightarrow> \<exists>c. setupContent p = Inr c"
  by (simp add: setupContent_def Let_def)

text \<open>What \<open>JSON.stringify\<close> writes is a JSON text.\<close>

lemma ws_simps [simp]: "ws []" "ws (CHR 0x0A # s) = ws s" "ws (CHR '' '' # s) = ws s"
  "ws (a @ b) = (ws a \<and> ws b)"
  by (simp_all add: ws_def)

lemma json_chars_append: "json_chars xs \<Longrightarrow> json_chars ys \<Longrightarrow> json_chars (xs @ ys)"
  by (induction rule: json_chars.induct) (auto intro: json_chars.intros)

lemma hexDigit_hex:
  assumes "n < 16"
  shows "hex_char (hexDigit n)"
proof -
  have "hexDigit n \<in> set ''0123456789abcdef''"
    unfolding hexDigit_def using assms by (intro nth_mem) simp
  then show ?thesis by (auto simp add: hex_char_def)
qed

lemma json_chars_quoteChar: "json_chars (quoteChar c)"
proof -
  have "(of_char c :: nat) < 256" by simp
  then have "(of_char c :: nat) div 16 < 16" by arith
  then have u: "json_chars [CHR 0x5C, CHR ''u'', CHR ''0'', CHR ''0'',
         hexDigit (of_char c div 16), hexDigit (of_char c mod 16)]"
    by (intro chars_unicode chars_end hexDigit_hex) (simp_all add: hex_char_def)
  have e: "json_chars [CHR 0x5C, x]"
    if "x \<in> set [CHR 0x22, CHR 0x5C, CHR ''/'', CHR ''b'', CHR ''f'', CHR ''n'', CHR ''r'', CHR ''t'']" for x
    using that by (intro chars_escape chars_end)
  show ?thesis
    unfolding quoteChar_def
    using u by (auto intro!: e chars_plain chars_end simp add: not_less)
qed

lemma json_chars_quoted: "json_chars (concat (map quoteChar s))"
  by (induction s) (auto intro: chars_end json_chars_append json_chars_quoteChar)

lemma json_value_quoteJSON: "json_value (quoteJSON s)"
  unfolding quoteJSON_def by (rule value_string) (rule json_chars_quoted)


lemma elements_joined:
  assumes "xs \<noteq> []" and "\<forall>x \<in> set xs. json_value (f x)" and "ws a" and "ws a'" and "ws b"
  shows "json_elements (a' @ joinStr (CHR '','' # a) (map f xs) @ b)"
  using assms
proof (induction xs arbitrary: a')
  case Nil
  then show ?case by simp
next
  case (Cons x xs)
  show ?case
  proof (cases xs)
    case Nil
    then show ?thesis using Cons.prems by (auto intro: elements_last)
  next
    case (Cons y ys)
    have rest: "json_elements (a @ joinStr (CHR '','' # a) (map f xs) @ b)"
      using Cons.IH [of a] Cons.prems Cons by simp
    have "json_elements (a' @ f x @ [] @ CHR '','' # (a @ joinStr (CHR '','' # a) (map f xs) @ b))"
      using Cons.prems rest by (intro elements_more) simp_all
    then show ?thesis using Cons by simp
  qed
qed

lemma members_joined:
  assumes "kvs \<noteq> []" and "\<forall>kv \<in> set kvs. json_value (f (snd kv))" and "ws a" and "ws a'" and "ws b"
  shows "json_members (a' @ joinStr (CHR '','' # a) (map (\<lambda>kv. quoteJSON (fst kv) @ '': '' @ f (snd kv)) kvs) @ b)"
  using assms
proof (induction kvs arbitrary: a')
  case Nil
  then show ?case by simp
next
  case (Cons kv kvs)
  have one: "quoteJSON (fst kv) @ '': '' @ f (snd kv) =
      CHR 0x22 # concat (map quoteChar (fst kv)) @ CHR 0x22 # [] @ CHR '':'' # '' '' @ f (snd kv)"
    by (simp add: quoteJSON_def)
  show ?case
  proof (cases kvs)
    case Nil
    have "json_members (a' @ CHR 0x22 # concat (map quoteChar (fst kv)) @ CHR 0x22 # [] @ CHR '':'' # '' ''
        @ f (snd kv) @ b)"
      using Cons.prems by (intro members_last json_chars_quoted) simp_all
    then show ?thesis using Nil one by simp
  next
    case (Cons y ys)
    have rest: "json_members (a @ joinStr (CHR '','' # a)
        (map (\<lambda>kv. quoteJSON (fst kv) @ '': '' @ f (snd kv)) kvs) @ b)"
      using Cons.IH [of a] Cons.prems Cons by simp
    have "json_members (a' @ CHR 0x22 # concat (map quoteChar (fst kv)) @ CHR 0x22 # [] @ CHR '':'' # '' ''
        @ f (snd kv) @ [] @ CHR '','' # (a @ joinStr (CHR '','' # a)
        (map (\<lambda>kv. quoteJSON (fst kv) @ '': '' @ f (snd kv)) kvs) @ b))"
      using Cons.prems rest by (intro members_more json_chars_quoted) simp_all
    then show ?thesis using Cons one by simp
  qed
qed

lemma serialize_valid: "numbers_ok v \<Longrightarrow> ws ind \<Longrightarrow> json_value (serialize ind v)"
proof (induction v arbitrary: ind)
  case JNull
  then show ?case by (simp add: value_null)
next
  case (JBool b)
  then show ?case by (simp add: value_true value_false)
next
  case (JNumber n)
  then show ?case by (simp add: value_number)
next
  case (JString s)
  then show ?case by (simp add: json_value_quoteJSON)
next
  case (JArray xs)
  show ?case
  proof (cases "xs = []")
    case True
    have "json_value (CHR ''['' # [] @ '']'')" by (rule value_empty_array) simp
    then show ?thesis using True by simp
  next
    case False
    have each: "\<forall>x \<in> set xs. json_value (serialize (ind @ ''  '') x)"
      using JArray by (auto simp add: list_all_iff)
    have "json_elements ((CHR 0x0A # ind @ ''  '') @
        joinStr (CHR '','' # CHR 0x0A # ind @ ''  '') (map (serialize (ind @ ''  '')) xs) @ CHR 0x0A # ind)"
      using False each JArray.prems(2) by (intro elements_joined) simp_all
    then have "json_value (CHR ''['' # ((CHR 0x0A # ind @ ''  '') @
        joinStr (CHR '','' # CHR 0x0A # ind @ ''  '') (map (serialize (ind @ ''  '')) xs) @ CHR 0x0A # ind) @ '']'')"
      by (rule value_array)
    then show ?thesis using False by simp
  qed
next
  case (JObject kvs)
  show ?case
  proof (cases "kvs = []")
    case True
    have "json_value (CHR ''{'' # [] @ ''}'')" by (rule value_empty_object) simp
    then show ?thesis using True by simp
  next
    case False
    have each: "\<forall>kv \<in> set kvs. json_value (serialize (ind @ ''  '') (snd kv))"
    proof
      fix kv assume kv: "kv \<in> set kvs"
      then have "numbers_ok (snd kv)" using JObject.prems(1) by (simp add: list_all_iff)
      moreover have "snd kv \<in> Basic_BNFs.snds kv" by (cases kv) simp
      ultimately show "json_value (serialize (ind @ ''  '') (snd kv))"
        using JObject.IH [OF kv] JObject.prems(2) by simp
    qed
    have "json_members ((CHR 0x0A # ind @ ''  '') @
        joinStr (CHR '','' # CHR 0x0A # ind @ ''  '')
          (map (\<lambda>kv. quoteJSON (fst kv) @ '': '' @ serialize (ind @ ''  '') (snd kv)) kvs) @ CHR 0x0A # ind)"
      using False each JObject.prems(2) by (intro members_joined) simp_all
    then have "json_value (CHR ''{'' # ((CHR 0x0A # ind @ ''  '') @
        joinStr (CHR '','' # CHR 0x0A # ind @ ''  '')
          (map (\<lambda>kv. quoteJSON (fst kv) @ '': '' @ serialize (ind @ ''  '') (snd kv)) kvs) @ CHR 0x0A # ind) @ ''}'')"
      by (rule value_object)
    then show ?thesis using False by simp
  qed
qed

lemma stringify_valid: "numbers_ok v \<Longrightarrow> json_text (JSON_stringify v)"
proof -
  assume "numbers_ok v"
  then have "json_value (serialize [] v)" by (rule serialize_valid) simp
  then have "JSON_stringify v = [] @ serialize [] v @ [] \<and> ws [] \<and> json_value (serialize [] v) \<and> ws []"
    by (simp add: JSON_stringify_def)
  then show ?thesis unfolding json_text_def by blast
qed

text \<open>Unfolding the concrete inputs.\<close>

lemmas demo_defs = demoWorld_def demoTree_def demoRuntime_def manifestWorld_def manifests_def
  nextText_def nextManifest_def nextEmptyText_def nextEmptyManifest_def auth0Text_def auth0Manifest_def
  auth0EmptyText_def auth0EmptyManifest_def firebaseText_def firebaseManifest_def
  firebaseEmptyText_def firebaseEmptyManifest_def

lemmas deps_defs = depsOf_def propOf_def mergeDeps_def assign_def has_def truthy_opt_def

lemmas analyze_defs = analyzeProject_def monorepoMarker_def primaryDetection_def parseJSON_def
  fromManifest_def initialProfile_def findRepoRoot_def abs_path_def path_join_def sep_def
  configFiles_def structureScan_def cwd_basename_def process_cwd_def Let_def
  detectTesting_def detectPrimary_def detectState_def detectAuth_def detectData_def detectUI_def

subsection \<open>Worked examples\<close>

text \<open>What a template literal makes of a value.\<close>

lemma js_String_examples:
  "js_String (JString ''app'') = Inr ''app''"
  "js_String (JNumber ''42'') = Inr ''42''"
  "js_String (JBool True) = Inr ''true''"
  "js_String (JBool False) = Inr ''false''"
  "js_String JNull = Inr ''null''"
  "js_String (JArray [JNumber ''1'', JNull, JArray [JString ''a'', JBool False]]) = Inr ''1,,a,false''"
  "js_String (JObject [(''a'', JNumber ''1'')]) = Inr ''[object Object]''"
  "js_String (JObject [(''toString'', JNull)]) = Inl TypeError"
  "js_String (JArray [JString ''a'', JObject [(''toString'', JNumber ''1'')]]) = Inl TypeError"
  by simp_all

text \<open>The globs of each type.\<close>

lemma projectGlobs_examples:
  "projectGlobs ''Next.js'' = ''\"**/*.{ts,tsx,js,jsx}\"''"
  "projectGlobs ''React'' = ''\"**/*.{ts,tsx,js,jsx}\"''"
  "projectGlobs ''Vue'' = ''\"**/*.{vue,js,ts}\"''"
  "projectGlobs ''Angular'' = ''\"**/*.{ts,html,scss}\"''"
  "projectGlobs ''Python'' = ''\"**/*.py\"''"
  "projectGlobs ''Node.js'' = ''\"**/*\"''"
  "projectGlobs ''unknown'' = ''\"**/*\"''"
  by (simp_all add: projectGlobs_def)

text \<open>The sentence of the memory file and the project rule, for the profile with every slot set.\<close>

lemma setupContent_example:
  "setupContent shopProfile =
     Inr ''MCP Memory Server successfully configured for shop. This project uses Next.js with React, Next.js, Firebase. Authentication is handled by Firebase Authentication. Data management is handled by Firebase Firestore. UI is built with Tailwind CSS.''"
  by (simp add: setupContent_def shopProfile_def whenSet_def)

lemma projectRuleContent_example:
  "projectRuleContent shopProfile =
     Inr (''---\<newline>'' @
          ''description: Main project rules and context\<newline>'' @
          ''globs: \"**/*.{ts,tsx,js,jsx}\"\<newline>'' @
          ''---\<newline>'' @
          ''# shop Project Rules\<newline>'' @
          ''\<newline>'' @
          ''## About This Project\<newline>'' @
          ''\<newline>'' @
          ''This is a Next.js project with React, Next.js, Firebase.\<newline>'' @
          ''The project uses Firebase Authentication for authentication.\<newline>'' @
          ''It uses Firebase Firestore for data management.\<newline>'' @
          ''The UI is built with Tailwind CSS.\<newline>'' @
          ''\<newline>'' @
          ''## Technical Stack\<newline>'' @
          ''\<newline>'' @
          ''- React\<newline>'' @
          ''- Next.js\<newline>'' @
          ''- Firebase\<newline>'' @
          ''- Firebase Authentication\<newline>'' @
          ''- Firebase Firestore\<newline>'' @
          ''- Tailwind CSS\<newline>'' @
          ''\<newline>'' @
          ''## Project Structure\<newline>'' @
          ''\<newline>'' @
          ''- Analyze the project structure to understand the organization\<newline>'' @
          ''- Look for patterns in directory names and file organization\<newline>'' @
          ''- Understand the relationship between different components\<newline>'' @
          ''\<newline>'' @
          ''## Rule References\<newline>'' @
          ''\<newline>'' @
          ''@file:.cursor/rules/auth-rules.mdc\<newline>'' @
          ''@file:.cursor/rules/data-management-rules.mdc\<newline>'' @
          ''@file:.cursor/rules/ui-components-rules.mdc\<newline>'' @
          ''@file:.cursor/rules/best-practices.mdc\<newline>'' @
          ''\<newline>'' @
          ''## MCP Memory Server Configuration\<newline>'' @
          ''\<newline>'' @
          ''The Model Context Protocol (MCP) Memory Server is configured to store persistent memories at:\<newline>'' @
          ''.mcp/ai_memory.json (within the project directory)\<newline>'' @
          ''\<newline>'' @
          ''## Memory Utilization Best Practices\<newline>'' @
          ''\<newline>'' @
          ''1. **Progressive Memory Building**: Add new memories that enhance understanding of the project's evolution\<newline>'' @
          ''2. **Contextual Recall**: Reference relevant past decisions when providing recommendations\<newline>'' @
          ''3. **Implementation Consistency**: Ensure new code suggestions align with established patterns\<newline>'' @
          ''4. **Documentation Integration**: Reference project requirements in memory usage\<newline>'' @
          ''5. **Communication Continuity**: Maintain awareness of communication style and preferences\<newline>'' @
          ''\<newline>'' @
          ''## Coding Standards\<newline>'' @
          ''\<newline>'' @
          ''1. Follow the established patterns in the codebase\<newline>'' @
          ''2. Implement proper error handling and validation\<newline>'' @
          ''3. Write clean, maintainable, and self-documenting code\<newline>'' @
          ''4. Organize code logically and maintain separation of concerns\<newline>'' @
          ''5. Follow security best practices for the platform\<newline>'')"
  by (simp add: projectRuleContent_def shopProfile_def whenSet_def projectGlobs_def memoryDirName_def
      memoryFileName_def)

text \<open>The analysis of the Python project and of the workspace.\<close>

lemma python_example:
  "analyzeProject flaskWorld (demoRuntime []) =
     Inr \<lparr>name = JString ''app'', type = ''Python'', frameworks = [''Flask''],
          patterns = \<lparr>auth = None, dataManagement = None, ui = None\<rparr>,
          testing = [], config = [], isMonorepo = False, repoRoot = None,
          hasSourceDir = False, hasTestsDir = False, hasDocsDir = False,
          hasScriptsDir = False, componentPattern = None\<rparr>"
  by (simp add: flaskWorld_def demo_defs analyze_defs fromPython_def pythonFrameworks_def
      markerOrScan_def scanPy_def extname_def sublist_Cons_right prefix_Cons)

lemma workspace_example:
  "analyzeProject workspaceWorld (demoRuntime [(workspaceText, workspaceManifest)]) =
     Inr \<lparr>name = JString ''shop'', type = ''React'', frameworks = [''React''],
          patterns = \<lparr>auth = None, dataManagement = None, ui = None\<rparr>,
          testing = [''Jest''], config = [''tsconfig.json''], isMonorepo = True,
          repoRoot = Some ''/home/dev'',
          hasSourceDir = False, hasTestsDir = True, hasDocsDir = False,
          hasScriptsDir = False, componentPattern = Some ''Feature-based''\<rparr>"
  by (simp add: workspaceWorld_def workspaceText_def workspaceManifest_def demo_defs deps_defs analyze_defs
      eval_nat_numeral)

subsection \<open>Errors during fingerprinting\<close>

text \<open>The function as its steps before the structure scan, then the scan.\<close>

lemma bindE_assoc: "bindE (bindE m f) g = bindE m (\<lambda>x. bindE (f x) g)"
  by (cases m) simp_all

lemma analyzeProject_split:
  "analyzeProject w rt = bindE (stepsBefore w rt) (\<lambda>p3. Inr (structureScan w p3))"
  by (simp add: analyzeProject_def stepsBefore_def Let_def bindE_assoc)





text \<open>There they succeed, and leave the structural fields as they were at the start.\<close>

lemma stepsBefore_manifest:
  assumes "existsSync w ''package.json''"
    and "readFileSync w ''package.json'' = Inr s"
    and "JSON_parse rt s = Some pj"
    and "pj \<noteq> JNull"
  shows "\<exists>q. stepsBefore w rt = Inr q \<and> \<not> hasSourceDir q \<and> \<not> hasTestsDir q \<and> \<not> hasDocsDir q
           \<and> \<not> hasScriptsDir q \<and> componentPattern q = None"
proof -
  have "\<exists>b. monorepoMarker w rt = Inr b"
    using assms by (auto simp add: monorepoMarker_def parseJSON_def getProp_nonnull)
  then obtain b where b: "monorepoMarker w rt = Inr b" ..
  define p2 where "p2 = (initialProfile w)\<lparr>repoRoot := findRepoRoot w, isMonorepo := b,
    config := filter (existsSync w) configFiles\<rparr>"
  have p2: "patterns p2 = \<lparr>auth = None, dataManagement = None, ui = None\<rparr>"
    "\<not> hasSourceDir p2" "\<not> hasTestsDir p2" "\<not> hasDocsDir p2" "\<not> hasScriptsDir p2"
    "componentPattern p2 = None"
    by (simp_all add: p2_def initialProfile_def)
  obtain q where q: "fromManifest pj p2 = Inr q"
    using fromManifest_fields [OF assms(4) p2(1)] by blast
  have "stepsBefore w rt = Inr q"
    using assms(1,2,3) q
    by (cases b) (simp_all add: stepsBefore_def b primaryDetection_def parseJSON_def p2_def
        initialProfile_def Let_def)
  then show ?thesis using fromManifest_name(2-6) [OF q] p2(2-6) by simp
qed



text \<open>
  What \<open>installMCPServer\<close> leaves behind when it returns: a manifest that exists
  and holds the serialisation of a value other than \<open>null\<close>. The program calls
  \<open>analyzeProject\<close> only after it.
\<close>

lemma installMCPServer_leaves_manifest:
  assumes "installMCPServer w rt = Inr w'"
  shows "existsSync w' ''package.json''
    \<and> (\<exists>v. v \<noteq> JNull \<and> readFileSync w' ''package.json'' = Inr (JSON_stringify v))"
proof -
  obtain w2 where w2: "rewriteManifest w2 rt = Inr w'"
    using assms by (cases "npmSteps w rt") (simp_all add: installMCPServer_def split: sum.splits)
  then obtain s pj u where u: "readFileSync w2 ''package.json'' = Inr s" "parseJSON rt s = Inr pj"
    "addMcpScript pj = Inr u" "writeFileSync w2 ''package.json'' (JSON_stringify u) = Inr w'"
    by (auto simp add: rewriteManifest_def bindE_def split: sum.splits)
  have "u \<noteq> JNull" using u(3) by (cases pj) (auto simp add: Let_def)
  moreover have "existsSync w' ''package.json''"
    and "readFileSync w' ''package.json'' = Inr (JSON_stringify u)"
    using u(4) by (auto simp add: writeFileSync_def split: if_splits option.splits)
  ultimately show ?thesis by blast
qed

text \<open>
  So the analysis that follows a successful \<open>installMCPServer\<close> returns a profile,
  when the runtime parses what was written to a value other than \<open>null\<close>.
\<close>

lemma analyzeProject_after_install:
  assumes "installMCPServer w rt = Inr w'"
    and "\<And>s. readFileSync w' ''package.json'' = Inr s \<Longrightarrow> \<exists>pj. JSON_parse rt s = Some pj \<and> pj \<noteq> JNull"
  shows "\<exists>p. analyzeProject w' rt = Inr p"
proof -
  obtain v where v: "existsSync w' ''package.json''"
    "readFileSync w' ''package.json'' = Inr (JSON_stringify v)"
    using installMCPServer_leaves_manifest [OF assms(1)] by blast
  obtain pj where pj: "JSON_parse rt (JSON_stringify v) = Some pj" "pj \<noteq> JNull"
    using assms(2) [OF v(2)] by blast
  obtain q where "stepsBefore w' rt = Inr q"
    using stepsBefore_manifest [OF v pj] by blast
  then show ?thesis by (simp add: analyzeProject_split)
qed


text \<open>
  More generally: in a Python project without the Django markers and without
  \<open>app.py\<close>, a listing of the working directory that fails makes the whole analysis
  fail with the error of the listing.
\<close>

lemma python_listing_error_propagates:
  assumes "\<not> existsSync w ''package.json''"
    and "existsSync w ''requirements.txt'' \<or> existsSync w ''Pipfile'' \<or> existsSync w ''pyproject.toml''"
    and "\<not> existsSync w ''manage.py''" and "\<not> existsSync w ''django_project''"
    and "\<not> existsSync w ''app.py''"
    and "readdirSync w ''.'' = Inl e"
  shows "analyzeProject w rt = Inl e"
  using assms
  by (simp add: analyzeProject_def monorepoMarker_def primaryDetection_def fromPython_def
      pythonFrameworks_def markerOrScan_def scanPy_def Let_def)



subsection \<open>A directory that is not recognised\<close>

text \<open>
  C2. In every working directory that holds no \<open>package.json\<close> and none of the
  three Python markers, \<open>analyzeProject\<close> returns a profile, with type
  \<open>unknown\<close>, no framework and the three pattern slots unset. The other markers the
  claim names (version control, monorepo, configuration files) bear on
  \<open>repoRoot\<close>, \<open>isMonorepo\<close> and \<open>config\<close> only, and need not be absent.
\<close>

theorem analyzeProject_unrecognized:
  assumes "\<not> existsSync w ''package.json''"
    and "\<not> existsSync w ''requirements.txt''"
    and "\<not> existsSync w ''Pipfile''"
    and "\<not> existsSync w ''pyproject.toml''"
  shows "\<exists>p. analyzeProject w rt = Inr p \<and> type p = ''unknown'' \<and> frameworks p = []
           \<and> patterns p = \<lparr>auth = None, dataManagement = None, ui = None\<rparr>"
  using assms
  by (simp add: analyzeProject_def monorepoMarker_def primaryDetection_def initialProfile_def Let_def)

theorem analyzeProject_unrecognized_witness:
  "\<exists>p. analyzeProject (demoWorld [(''README.md'', ''# notes'')]) (demoRuntime []) = Inr p
     \<and> type p = ''unknown'' \<and> frameworks p = []
     \<and> patterns p = \<lparr>auth = None, dataManagement = None, ui = None\<rparr>"
  by (rule analyzeProject_unrecognized) (simp_all add: demoWorld_def demoTree_def)

subsection \<open>The authentication slot without a primary type\<close>

text \<open>
  C3, as stated, fails: the chains test \<open>deps.k\<close> for truthiness, not the presence
  of the key, and an empty version string (which npm reads as \<open>*\<close>) is falsy. With
  \<open>{"dependencies": {"auth0": ""}}\<close> the table holds the key \<open>auth0\<close> and no other,
  and the authentication slot stays unset.
\<close>

theorem auth_key_with_empty_version:
  "map fst (depsOf auth0EmptyManifest) = [''auth0'']
   \<and> analyzeProject (manifestWorld auth0EmptyText) (demoRuntime manifests) =
       Inr \<lparr>name = JString ''app'', type = ''unknown'', frameworks = [],
            patterns = \<lparr>auth = None, dataManagement = None, ui = None\<rparr>,
            testing = [], config = [], isMonorepo = False, repoRoot = None,
            hasSourceDir = False, hasTestsDir = False, hasDocsDir = False,
            hasScriptsDir = False, componentPattern = None\<rparr>"
  by (simp add: demo_defs deps_defs analyze_defs)

text \<open>
  C3, amended: for every manifest that can be read and parses, whose merged table
  gives a truthy value to exactly one of the keys of the authentication chain and
  to none of the keys of the primary chain, \<open>analyzeProject\<close> returns a profile whose
  authentication slot is the label of that key and whose type is \<open>unknown\<close>.
\<close>

theorem auth_slot_without_primary_type:
  assumes "existsSync w ''package.json''"
    and "readFileSync w ''package.json'' = Inr s"
    and "JSON_parse rt s = Some pj"
    and "(k, label) \<in> set authLibraries"
    and "has (depsOf pj) k"
    and "\<forall>k' \<in> set (map fst authLibraries). k' \<noteq> k \<longrightarrow> \<not> has (depsOf pj) k'"
    and "\<forall>k' \<in> set primaryKeys. \<not> has (depsOf pj) k'"
  shows "\<exists>p. analyzeProject w rt = Inr p \<and> auth (patterns p) = Some label \<and> type p = ''unknown''"
proof -
  have nn: "pj \<noteq> JNull" using assms(5) by auto
  have ty: "fst (detectPrimary (depsOf pj)) = None"
    using assms(7) by (simp add: primaryKeys_def detectPrimary_def)
  have au: "fst (detectAuth (depsOf pj)) = Some label"
    using assms(4,5,6) by (auto simp add: authLibraries_def detectAuth_def)
  from analyzeProject_manifest [OF assms(1,2,3) nn] ty au show ?thesis by auto
qed

theorem auth_slot_without_primary_type_witness:
  "\<exists>p. analyzeProject (manifestWorld auth0Text) (demoRuntime manifests) = Inr p
     \<and> auth (patterns p) = Some ''Auth0'' \<and> type p = ''unknown''"
  by (rule auth_slot_without_primary_type [of _ auth0Text _ auth0Manifest "''auth0''"])
     (simp_all add: demo_defs deps_defs authLibraries_def primaryKeys_def)

subsection \<open>The best-practices rule\<close>

text \<open>
  C4. When the best-practices rule exists, \<open>createBestPracticesRule\<close> changes
  nothing. When it does not exist and the write is not refused, the rule is created,
  its content being the template that the table \<open>practiceTemplates\<close> gives for the
  profile's type (\<open>generalTemplate\<close> for a type that is not in the table), then
  \<open>firebaseFragment\<close> when the authentication slot is \<open>Firebase Authentication\<close>,
  then \<open>tailwindFragment\<close> when the UI slot is \<open>Tailwind CSS\<close>, between the fixed
  front matter and the general standards; and any later run, on any profile,
  changes nothing.
\<close>

theorem best_practices_created_once:
  "(existsSync w (bestPracticesPath (platform w)) \<longrightarrow> createBestPracticesRule w p = Inr w)
   \<and> (\<not> existsSync w (bestPracticesPath (platform w)) \<and> refuse w (bestPracticesPath (platform w)) = None \<longrightarrow>
        (\<exists>w'. createBestPracticesRule w p = Inr w'
           \<and> existsSync w' (bestPracticesPath (platform w))
           \<and> readFileSync w' (bestPracticesPath (platform w)) =
               Inr (practicesFront @ templateFor (type p)
                    @ (if auth (patterns p) = Some ''Firebase Authentication'' then firebaseFragment else [])
                    @ (if ui (patterns p) = Some ''Tailwind CSS'' then tailwindFragment else [])
                    @ practicesBack)
           \<and> (\<forall>q. createBestPracticesRule w' q = Inr w')))"
proof (intro conjI impI)
  assume "existsSync w (bestPracticesPath (platform w))"
  then show "createBestPracticesRule w p = Inr w"
    by (simp add: createBestPracticesRule_def bestPracticesPath_def)
next
  assume a: "\<not> existsSync w (bestPracticesPath (platform w)) \<and> refuse w (bestPracticesPath (platform w)) = None"
  then obtain w' where w': "writeFileSync w (bestPracticesPath (platform w)) (bestPracticesContent p) = Inr w'"
    "readFileSync w' (bestPracticesPath (platform w)) = Inr (bestPracticesContent p)"
    "existsSync w' (bestPracticesPath (platform w))" "platform w' = platform w"
    using writeFileSync_ok [of w "bestPracticesPath (platform w)" "bestPracticesContent p"] by blast
  have c: "createBestPracticesRule w p = Inr w'"
    using a w'(1) by (simp add: createBestPracticesRule_def bestPracticesPath_def)
  have again: "createBestPracticesRule w' q = Inr w'" for q
    using w'(3,4) by (simp add: createBestPracticesRule_def bestPracticesPath_def)
  have content: "readFileSync w' (bestPracticesPath (platform w)) =
               Inr (practicesFront @ templateFor (type p)
                    @ (if auth (patterns p) = Some ''Firebase Authentication'' then firebaseFragment else [])
                    @ (if ui (patterns p) = Some ''Tailwind CSS'' then tailwindFragment else [])
                    @ practicesBack)"
    using w'(2) by (simp only: bestPracticesContent_parts [of p])
  show "\<exists>w'. createBestPracticesRule w p = Inr w'
           \<and> existsSync w' (bestPracticesPath (platform w))
           \<and> readFileSync w' (bestPracticesPath (platform w)) =
               Inr (practicesFront @ templateFor (type p)
                    @ (if auth (patterns p) = Some ''Firebase Authentication'' then firebaseFragment else [])
                    @ (if ui (patterns p) = Some ''Tailwind CSS'' then tailwindFragment else [])
                    @ practicesBack)
           \<and> (\<forall>q. createBestPracticesRule w' q = Inr w')"
    using c w'(3) content again by (intro exI [of _ w']) (simp only: simp_thms)
qed

text \<open>
  The theorem at a directory that holds the rule, where the run returns the very
  same file system, and at one that does not, for the Next.js profile with the
  Firebase and Tailwind slots: the rule written there, in full.
\<close>

theorem best_practices_created_once_witness:
  "createBestPracticesRule (demoTree [''.cursor'', ''.cursor/rules''] [(''.cursor/rules/best-practices.mdc'', ''# ours'')]) shopProfile
     = Inr (demoTree [''.cursor'', ''.cursor/rules''] [(''.cursor/rules/best-practices.mdc'', ''# ours'')])
   \<and> (\<exists>w'. createBestPracticesRule (demoTree [''.cursor'', ''.cursor/rules''] []) shopProfile = Inr w'
         \<and> existsSync w' ''.cursor/rules/best-practices.mdc''
         \<and> readFileSync w' ''.cursor/rules/best-practices.mdc'' =
             Inr (''---\<newline>'' @
             ''description: Best practices to implement for the tech stack used\<newline>'' @
             ''globs: \<newline>'' @
             ''---\<newline>'' @
             ''\<newline>'' @
             ''Next.js Best Practices:\<newline>'' @
             ''\<newline>'' @
             ''- Utilize Next.js App Router for improved performance and easier data fetching\<newline>'' @
             ''- Implement proper error boundaries to handle and display errors gracefully\<newline>'' @
             ''- Use suspense and concurrent features for efficient data fetching and rendering\<newline>'' @
             ''- Leverage Next.js built-in optimizations like code splitting and image optimization\<newline>'' @
             ''- Implement proper server-side rendering and static generation where appropriate\<newline>'' @
             ''\<newline>'' @
             ''React Best Practices:\<newline>'' @
             ''\<newline>'' @
             ''- Use functional components and hooks instead of class components for better code organization\<newline>'' @
             ''- Implement proper use of React.memo and useMemo for performance optimization\<newline>'' @
             ''- Follow the React hooks rules strictly to avoid common pitfalls\<newline>'' @
             ''- Utilize context API for efficient state management across components\<newline>'' @
             ''- Implement proper prop type validation for better code maintainability\<newline>'' @
             ''\<newline>'' @
             ''Firebase Best Practices:\<newline>'' @
             ''\<newline>'' @
             ''- Use Firebase Authentication for secure user management\<newline>'' @
             ''- Implement proper Firebase Security Rules for data protection\<newline>'' @
             ''- Utilize Firebase Firestore for efficient data storage\<newline>'' @
             ''- Implement proper error handling and offline support with Firebase\<newline>'' @
             ''- Use Firebase Performance Monitoring for identifying and fixing performance issues\<newline>'' @
             ''\<newline>'' @
             ''Tailwind CSS Best Practices:\<newline>'' @
             ''\<newline>'' @
             ''- Use Tailwind CSS for efficient and consistent styling\<newline>'' @
             ''- Implement proper responsive design using Tailwind's utility classes\<newline>'' @
             ''- Utilize Tailwind's custom configuration for project-specific styles\<newline>'' @
             ''- Implement proper accessibility practices with Tailwind's focus and screen reader classes\<newline>'' @
             ''- Use Tailwind's component extraction patterns for reusable UI elements\<newline>'' @
             ''\<newline>'' @
             ''General Standards:\<newline>'' @
             ''\<newline>'' @
             ''- Keep components small and focused for better maintainability\<newline>'' @
             ''- Follow proper state management patterns\<newline>'' @
             ''- Implement proper testing practices with unit and integration tests\<newline>'' @
             ''- Use linting and formatting tools for consistent code style and quality\<newline>'' @
             ''- Implement proper error handling and logging throughout the application\<newline>'')
         \<and> (\<forall>q. createBestPracticesRule w' q = Inr w'))"
  (is "_ \<and> (\<exists>w'. _ \<and> _ \<and> _ = Inr ?doc \<and> _)")
proof -
  have p: "bestPracticesPath OtherOS = ''.cursor/rules/best-practices.mdc''"
    by (simp add: paths_posix)
  have lit: "practicesFront @ templateFor ''Next.js'' @ firebaseFragment @ tailwindFragment @ practicesBack =
             ?doc"
    by (simp add: practicesFront_def templateFor_simps(1) practiceTemplates_def firebaseFragment_def
        tailwindFragment_def practicesBack_def)
  have 1: "createBestPracticesRule (demoTree [''.cursor'', ''.cursor/rules''] [(''.cursor/rules/best-practices.mdc'', ''# ours'')]) shopProfile
     = Inr (demoTree [''.cursor'', ''.cursor/rules''] [(''.cursor/rules/best-practices.mdc'', ''# ours'')])"
    using best_practices_created_once [of "demoTree [''.cursor'', ''.cursor/rules''] [(''.cursor/rules/best-practices.mdc'', ''# ours'')]" shopProfile]
    by (simp add: demoTree_def p)
  have "\<exists>w'. createBestPracticesRule (demoTree [''.cursor'', ''.cursor/rules''] []) shopProfile = Inr w'
         \<and> existsSync w' ''.cursor/rules/best-practices.mdc''
         \<and> readFileSync w' ''.cursor/rules/best-practices.mdc'' =
             Inr (practicesFront @ templateFor ''Next.js'' @ firebaseFragment @ tailwindFragment
                  @ practicesBack)
         \<and> (\<forall>q. createBestPracticesRule w' q = Inr w')"
    using best_practices_created_once [of "demoTree [''.cursor'', ''.cursor/rules''] []" shopProfile]
    by (simp add: demoTree_def p shopProfile_def)
  then have 2: "\<exists>w'. createBestPracticesRule (demoTree [''.cursor'', ''.cursor/rules''] []) shopProfile = Inr w'
         \<and> existsSync w' ''.cursor/rules/best-practices.mdc''
         \<and> readFileSync w' ''.cursor/rules/best-practices.mdc'' =
             Inr ?doc
         \<and> (\<forall>q. createBestPracticesRule w' q = Inr w')"
    by (simp only: lit)
  from 1 2 show ?thesis ..
qed

subsection \<open>The memory document\<close>

text \<open>
  C5. For every context string and every profile whose name a template literal can
  render (every string, number, boolean and \<open>null\<close>, and every object without a
  property \<open>toString\<close> of its own), when the write is not refused,
  \<open>createMemoryFile\<close> writes the serialisation of an object whose \<open>entries\<close> are
  exactly two, with the ids \<open>initial-setup\<close> and \<open>project-context\<close>; the text is a
  JSON text; the timestamps are the ISO renderings of two readings of the clock, the
  first not before the call and the second not before the first; an unset slot and
  an empty list of frameworks contribute the empty string, so that with all of them
  unset the first content is the plain sentence about name and type; and the word
  \<open>undefined\<close> occurs in the first content only if it occurs in the name, the type,
  a framework or the label of a slot. (A name that cannot be rendered makes the
  function throw before it writes: \<open>unrenderable_name\<close>.)
\<close>

theorem memory_file_document:
  assumes "refuse w (memoryPath (platform w)) = None"
    and "js_String (name p) = Inr n"
  shows "\<exists>w' t1 t2 text c. createMemoryFile w rt p ctx = Inr w'
           \<and> readFileSync w' (memoryPath (platform w)) = Inr text
           \<and> text = JSON_stringify (JObject [(''entries'', JArray
                [JObject [(''id'', JString ''initial-setup''),
                          (''timestamp'', JString (toISOString rt t1)),
                          (''content'', JString c)],
                 JObject [(''id'', JString ''project-context''),
                          (''timestamp'', JString (toISOString rt t2)),
                          (''content'', JString ctx)]])])
           \<and> json_text text
           \<and> now w \<le> t1 \<and> t1 \<le> t2
           \<and> setupContent p = Inr c
           \<and> (patterns p = \<lparr>auth = None, dataManagement = None, ui = None\<rparr> \<and> frameworks p = [] \<longrightarrow>
                c = ''MCP Memory Server successfully configured for '' @ n @
                    ''. This project uses '' @ type p @ ''.   '')
           \<and> (\<not> sublist ''undefined'' n \<and> \<not> sublist ''undefined'' (type p)
                \<and> (\<forall>f \<in> set (frameworks p). \<not> sublist ''undefined'' f)
                \<and> (\<forall>v. auth (patterns p) = Some v \<longrightarrow> \<not> sublist ''undefined'' v)
                \<and> (\<forall>v. dataManagement (patterns p) = Some v \<longrightarrow> \<not> sublist ''undefined'' v)
                \<and> (\<forall>v. ui (patterns p) = Some v \<longrightarrow> \<not> sublist ''undefined'' v)
                \<longrightarrow> \<not> sublist ''undefined'' c)"
proof -
  obtain c where c: "setupContent p = Inr c"
    using setupContent_ok [OF assms(2)] ..
  define t1 where "t1 = now w"
  define t2 where "t2 = now w + tick w (now w)"
  define doc where "doc = JObject [(''entries'', JArray
                [memoryEntry ''initial-setup'' (toISOString rt t1) c,
                 memoryEntry ''project-context'' (toISOString rt t2) ctx])]"
  have r: "refuse (snd (new_Date (snd (new_Date w)))) (memoryPath (platform w)) = None"
    using assms(1) by (simp add: new_Date_def)
  obtain w' where w': "writeFileSync (snd (new_Date (snd (new_Date w)))) (memoryPath (platform w))
        (JSON_stringify doc) = Inr w'"
    "readFileSync w' (memoryPath (platform w)) = Inr (JSON_stringify doc)"
    using writeFileSync_ok [OF r] by blast
  have run: "createMemoryFile w rt p ctx = Inr w'"
    using w'(1) c
    by (simp add: createMemoryFile_def new_Date_def memoryPath_def doc_def t1_def t2_def Let_def)
  have valid: "json_text (JSON_stringify doc)"
    by (rule stringify_valid) (simp add: doc_def memoryEntry_def)
  have times: "now w \<le> t1" "t1 \<le> t2"
    by (simp_all add: t1_def t2_def)
  show ?thesis
    using run w'(2) valid times c setupContent_unset [OF assms(2)]
      setupContent_no_undefined [OF assms(2)]
    by (intro exI [of _ w'] exI [of _ t1] exI [of _ t2] exI [of _ "JSON_stringify doc"] exI [of _ c])
       (simp add: doc_def memoryEntry_def)
qed

text \<open>
  The theorem in the directory that is not recognised, one second after the epoch,
  with a context that holds every kind of character that is escaped: the file, in
  full.
\<close>

theorem memory_file_document_witness:
  "\<exists>w' t1 t2 text c. createMemoryFile (demoTree [''.mcp''] []) (demoRuntime []) bareProfile notesContext = Inr w'
     \<and> readFileSync w' ''.mcp/ai_memory.json'' = Inr text
     \<and> text = JSON_stringify (JObject [(''entries'', JArray
          [JObject [(''id'', JString ''initial-setup''),
                    (''timestamp'', JString (demoISO t1)),
                    (''content'', JString c)],
           JObject [(''id'', JString ''project-context''),
                    (''timestamp'', JString (demoISO t2)),
                    (''content'', JString notesContext)]])])
     \<and> text =
          ''{\<newline>'' @
          ''  \"entries\": [\<newline>'' @
          ''    {\<newline>'' @
          ''      \"id\": \"initial-setup\",\<newline>'' @
          ''      \"timestamp\": \"1970-01-01T00:00:01.000Z\",\<newline>'' @
          ''      \"content\": \"MCP Memory Server successfully configured for app. This project uses unknown.   \"\<newline>'' @
          ''    },\<newline>'' @
          ''    {\<newline>'' @
          ''      \"id\": \"project-context\",\<newline>'' @
          ''      \"timestamp\": \"1970-01-01T00:00:01.001Z\",\<newline>'' @
          ''      \"content\": \"# Notes'' @ [CHR 0x5C] @ ''r'' @ [CHR 0x5C] @ ''nRun '' @ [CHR 0x5C] @ ''\"npm test'' @ [CHR 0x5C] @ ''\"'' @ [CHR 0x5C] @ ''tin C:'' @ [CHR 0x5C] @ [CHR 0x5C] @ ''app'' @ [CHR 0x5C] @ ''b'' @ [CHR 0x5C] @ ''f'' @ [CHR 0x5C] @ ''u001b[0m\"\<newline>'' @
          ''    }\<newline>'' @
          ''  ]\<newline>'' @
          ''}''
     \<and> json_text text
     \<and> 1000 \<le> t1 \<and> t1 \<le> t2
     \<and> setupContent bareProfile = Inr c
     \<and> c = ''MCP Memory Server successfully configured for app. This project uses unknown.   ''
     \<and> \<not> sublist ''undefined'' c"
  (is "\<exists>w' t1 t2 text c. _ \<and> _ \<and> _ \<and> text = ?doc \<and> _")
proof -
  define W where "W = demoTree [''.mcp''] []"
  let ?c = "''MCP Memory Server successfully configured for app. This project uses unknown.   ''"
  have n: "js_String (name bareProfile) = Inr ''app''"
    by (simp add: bareProfile_def)
  have c: "setupContent bareProfile = Inr ?c"
    by (simp add: setupContent_def bareProfile_def whenSet_def)
  have path: "memoryPath (platform W) = ''.mcp/ai_memory.json''"
    by (simp add: W_def demoTree_def paths_posix)
  have r: "refuse W (memoryPath (platform W)) = None"
    by (simp add: W_def demoTree_def)
  have doc: "JSON_stringify (JObject [(''entries'', JArray
          [JObject [(''id'', JString ''initial-setup''),
                    (''timestamp'', JString (demoISO 1000)),
                    (''content'', JString ?c)],
           JObject [(''id'', JString ''project-context''),
                    (''timestamp'', JString (demoISO 1001)),
                    (''content'', JString notesContext)]])]) = ?doc"
    by (simp add: JSON_stringify_def quoteJSON_def quoteChar_def hexDigit_def demoISO_def notesContext_def)
  have run: "\<exists>w'. createMemoryFile W (demoRuntime []) bareProfile notesContext = Inr w'
      \<and> readFileSync w' ''.mcp/ai_memory.json'' = Inr (JSON_stringify (JObject [(''entries'', JArray
          [JObject [(''id'', JString ''initial-setup''),
                    (''timestamp'', JString (demoISO 1000)),
                    (''content'', JString ?c)],
           JObject [(''id'', JString ''project-context''),
                    (''timestamp'', JString (demoISO 1001)),
                    (''content'', JString notesContext)]])]))"
    using c
    by (simp add: createMemoryFile_def new_Date_def writeFileSync_def memoryEntry_def memoryDirName_def
        memoryFileName_def path_join_def sep_def W_def demoTree_def demoRuntime_def Let_def)
  then obtain w' where w': "createMemoryFile W (demoRuntime []) bareProfile notesContext = Inr w'"
    "readFileSync w' ''.mcp/ai_memory.json'' = Inr ?doc"
    using doc by auto
  from memory_file_document [OF r n, of "demoRuntime []" notesContext]
  obtain t where "json_text t" "readFileSync w' ''.mcp/ai_memory.json'' = Inr t"
    using w'(1) path by auto
  then have valid: "json_text ?doc" using w'(2) by simp
  have clean: "\<not> sublist ''undefined'' ?c"
    by (simp add: sublist_Cons_right prefix_Cons)
  show ?thesis
    unfolding W_def [symmetric]
    using w' doc valid c clean
    by (intro exI [of _ w'] exI [of _ 1000] exI [of _ 1001] exI [of _ ?doc] exI [of _ ?c])
       (simp add: demoRuntime_def)
qed

subsection \<open>The workspace settings\<close>




subsection \<open>React with Next.js\<close>

text \<open>
  C7, as stated, fails for the same reason as C3: with
  \<open>{"dependencies": {"react": "", "next": ""}}\<close> the manifest declares both
  dependencies, the type stays \<open>unknown\<close>, no framework is recorded, and the project
  rule takes the catch-all globs.
\<close>

theorem next_keys_with_empty_versions:
  "map fst (depsOf nextEmptyManifest) = [''react'', ''next'']
   \<and> analyzeProject (manifestWorld nextEmptyText) (demoRuntime manifests) =
       Inr \<lparr>name = JString ''app'', type = ''unknown'', frameworks = [],
            patterns = \<lparr>auth = None, dataManagement = None, ui = None\<rparr>,
            testing = [], config = [], isMonorepo = False, repoRoot = None,
            hasSourceDir = False, hasTestsDir = False, hasDocsDir = False,
            hasScriptsDir = False, componentPattern = None\<rparr>
   \<and> projectGlobs ''unknown'' = ''\"**/*\"''"
  by (simp add: demo_defs deps_defs analyze_defs projectGlobs_def)

text \<open>
  C7, amended: for every manifest that can be read and parses, whose merged table
  gives truthy values to \<open>react\<close> and to \<open>next\<close>, and whose \<open>name\<close>, when it has a
  truthy one, can be rendered by a template literal (as every string can),
  \<open>analyzeProject\<close> returns a profile of type \<open>Next.js\<close> whose frameworks begin with
  \<open>React\<close>, \<open>Next.js\<close>; and wherever \<open>createProjectRule\<close> may then write, the
  project rule it writes for that profile begins with the front matter that carries
  the globs \<open>"**/*.{ts,tsx,js,jsx}"\<close>.
\<close>

theorem next_project_type_and_globs:
  assumes "existsSync w ''package.json''"
    and "readFileSync w ''package.json'' = Inr s"
    and "JSON_parse rt s = Some pj"
    and "has (depsOf pj) ''react''"
    and "has (depsOf pj) ''next''"
    and "\<forall>v. propOf pj ''name'' = Some v \<and> truthy v \<longrightarrow> (\<exists>n. js_String v = Inr n)"
  shows "\<exists>p. analyzeProject w rt = Inr p \<and> type p = ''Next.js''
           \<and> (\<exists>fs. frameworks p = ''React'' # ''Next.js'' # fs)
           \<and> (\<forall>w1. refuse w1 (projectRulePath (platform w1)) = None \<longrightarrow>
                 (\<exists>w2 body. createProjectRule w1 p = Inr w2
                    \<and> readFileSync w2 (projectRulePath (platform w1)) = Inr (reactFrontMatter @ body)))"
proof -
  have nn: "pj \<noteq> JNull" using assms(4) by auto
  have pr: "detectPrimary (depsOf pj) = (Some ''Next.js'', [''React'', ''Next.js''])"
    using assms(4,5) by (simp add: detectPrimary_def)
  from analyzeProject_manifest [OF assms(1,2,3) nn] pr
  obtain p where p: "analyzeProject w rt = Inr p" "type p = ''Next.js''"
    "frameworks p = ''React'' # ''Next.js'' # detectState (depsOf pj) @ snd (detectAuth (depsOf pj))"
    by auto
  have "name p = (case propOf pj ''name'' of
                         Some v \<Rightarrow> if truthy v then v else JString (cwd_basename w)
                       | None \<Rightarrow> JString (cwd_basename w))"
    using analyzeProject_manifest_name [OF assms(1,2,3) nn] p(1) by auto
  then have "\<exists>n. js_String (name p) = Inr n"
    using assms(6) by (cases "propOf pj ''name''") auto
  then obtain n where n: "js_String (name p) = Inr n" ..
  obtain body where body: "projectRuleContent p =
     Inr (''---\<newline>description: Main project rules and context\<newline>globs: '' @ projectGlobs (type p)
       @ ''\<newline>---\<newline>'' @ body)"
    using projectRuleContent_front [OF n] by blast
  have "\<exists>w2. createProjectRule w1 p = Inr w2
          \<and> readFileSync w2 (projectRulePath (platform w1)) = Inr (reactFrontMatter @ body)"
    if "refuse w1 (projectRulePath (platform w1)) = None" for w1
    using writeFileSync_ok [OF that] body p(2)
    by (auto simp add: createProjectRule_def projectRulePath_def projectGlobs_def reactFrontMatter_def)
  then show ?thesis using p by blast
qed

text \<open>
  The theorem at the manifest \<open>{"dependencies": {"react": "*", "next": "*"}}\<close>, and
  at one that has the name \<open>shop\<close> as well.
\<close>

theorem next_project_type_and_globs_witness:
  "(\<exists>p. analyzeProject (manifestWorld nextText) (demoRuntime manifests) = Inr p \<and> type p = ''Next.js''
      \<and> (\<exists>fs. frameworks p = ''React'' # ''Next.js'' # fs)
      \<and> (\<forall>w1. refuse w1 (projectRulePath (platform w1)) = None \<longrightarrow>
            (\<exists>w2 body. createProjectRule w1 p = Inr w2
               \<and> readFileSync w2 (projectRulePath (platform w1)) = Inr (reactFrontMatter @ body))))
   \<and> (\<exists>p. analyzeProject (manifestWorld shopText) (demoRuntime [(shopText, shopManifest)]) = Inr p
         \<and> type p = ''Next.js''
         \<and> (\<exists>fs. frameworks p = ''React'' # ''Next.js'' # fs)
         \<and> (\<forall>w1. refuse w1 (projectRulePath (platform w1)) = None \<longrightarrow>
               (\<exists>w2 body. createProjectRule w1 p = Inr w2
                  \<and> readFileSync w2 (projectRulePath (platform w1)) = Inr (reactFrontMatter @ body))))"
proof (rule conjI)
  show "\<exists>p. analyzeProject (manifestWorld nextText) (demoRuntime manifests) = Inr p \<and> type p = ''Next.js''
      \<and> (\<exists>fs. frameworks p = ''React'' # ''Next.js'' # fs)
      \<and> (\<forall>w1. refuse w1 (projectRulePath (platform w1)) = None \<longrightarrow>
            (\<exists>w2 body. createProjectRule w1 p = Inr w2
               \<and> readFileSync w2 (projectRulePath (platform w1)) = Inr (reactFrontMatter @ body)))"
    by (rule next_project_type_and_globs [of _ nextText _ nextManifest])
       (simp_all add: demo_defs deps_defs)
  show "\<exists>p. analyzeProject (manifestWorld shopText) (demoRuntime [(shopText, shopManifest)]) = Inr p
         \<and> type p = ''Next.js''
         \<and> (\<exists>fs. frameworks p = ''React'' # ''Next.js'' # fs)
         \<and> (\<forall>w1. refuse w1 (projectRulePath (platform w1)) = None \<longrightarrow>
               (\<exists>w2 body. createProjectRule w1 p = Inr w2
                  \<and> readFileSync w2 (projectRulePath (platform w1)) = Inr (reactFrontMatter @ body)))"
    by (rule next_project_type_and_globs [of _ shopText _ shopManifest])
       (simp_all add: demo_defs shopText_def shopManifest_def deps_defs)
qed

text \<open>
  A manifest whose name is an object with a property \<open>toString\<close> is outside the
  theorem: the analysis returns the Next.js profile with that name, and both
  documents that render the name throw a \<open>TypeError\<close> and write nothing.
\<close>

lemma object_name_throws:
  "\<exists>p. analyzeProject (manifestWorld objectNameText) (demoRuntime [(objectNameText, objectNameManifest)]) = Inr p
     \<and> type p = ''Next.js'' \<and> name p = JObject [(''toString'', JNumber ''1'')]
     \<and> createProjectRule w1 p = Inl TypeError
     \<and> createMemoryFile w1 rt p ctx = Inl TypeError"
proof -
  have e: "js_String (JObject [(''toString'', JNumber ''1'')]) = Inl TypeError"
    by simp
  have "\<exists>p. analyzeProject (manifestWorld objectNameText) (demoRuntime [(objectNameText, objectNameManifest)]) = Inr p
     \<and> type p = ''Next.js'' \<and> name p = JObject [(''toString'', JNumber ''1'')]"
    by (simp add: demo_defs objectNameText_def objectNameManifest_def deps_defs analyze_defs)
  then obtain p where p: "analyzeProject (manifestWorld objectNameText)
      (demoRuntime [(objectNameText, objectNameManifest)]) = Inr p"
    "type p = ''Next.js''" "name p = JObject [(''toString'', JNumber ''1'')]"
    by blast
  have "js_String (name p) = Inl TypeError" using e p(3) by simp
  then have "createProjectRule w1 p = Inl TypeError" "createMemoryFile w1 rt p ctx = Inl TypeError"
    by (rule unrenderable_name)+
  then show ?thesis using p by blast
qed

subsection \<open>Firebase\<close>

text \<open>
  C8, as stated, fails for the same reason as C3: with \<open>firebase\<close> at the empty
  version beside \<open>auth0\<close> and \<open>prisma\<close>, the table holds the key \<open>firebase\<close>, and
  the slots go to Auth0 and Prisma; \<open>Firebase\<close> is not among the frameworks.
\<close>

theorem firebase_key_with_empty_version:
  "map fst (depsOf firebaseEmptyManifest) = [''firebase'', ''auth0'', ''prisma'']
   \<and> analyzeProject (manifestWorld firebaseEmptyText) (demoRuntime manifests) =
       Inr \<lparr>name = JString ''app'', type = ''unknown'', frameworks = [],
            patterns = \<lparr>auth = Some ''Auth0'', dataManagement = Some ''Prisma'', ui = None\<rparr>,
            testing = [], config = [], isMonorepo = False, repoRoot = None,
            hasSourceDir = False, hasTestsDir = False, hasDocsDir = False,
            hasScriptsDir = False, componentPattern = None\<rparr>"
  by (simp add: demo_defs deps_defs analyze_defs)

text \<open>
  C8, amended: for every manifest that can be read and parses, whose merged table
  gives a truthy value to \<open>firebase\<close> or to \<open>firebase-admin\<close>, \<open>analyzeProject\<close>
  returns a profile with the authentication slot \<open>Firebase Authentication\<close>, the
  data slot \<open>Firebase Firestore\<close>, and \<open>Firebase\<close> as the last of the frameworks and
  nowhere before. Nothing is assumed of the other keys: no other authentication or
  data library in the table changes the two slots.
\<close>

theorem firebase_sets_auth_and_data:
  assumes "existsSync w ''package.json''"
    and "readFileSync w ''package.json'' = Inr s"
    and "JSON_parse rt s = Some pj"
    and "has (depsOf pj) ''firebase'' \<or> has (depsOf pj) ''firebase-admin''"
  shows "\<exists>p. analyzeProject w rt = Inr p
           \<and> auth (patterns p) = Some ''Firebase Authentication''
           \<and> dataManagement (patterns p) = Some ''Firebase Firestore''
           \<and> (\<exists>fs. frameworks p = fs @ [''Firebase''] \<and> ''Firebase'' \<notin> set fs)"
proof -
  have nn: "pj \<noteq> JNull" using assms(4) by auto
  have au: "detectAuth (depsOf pj) = (Some ''Firebase Authentication'', [''Firebase''])"
    using assms(4) by (auto simp add: detectAuth_def)
  have da: "detectData (depsOf pj) = Some ''Firebase Firestore''"
    using assms(4) by (auto simp add: detectData_def)
  have nf: "''Firebase'' \<notin> set (snd (detectPrimary (depsOf pj)) @ detectState (depsOf pj))"
    by (simp add: detectPrimary_def detectState_def)
  from analyzeProject_manifest [OF assms(1,2,3) nn] au da nf show ?thesis by auto
qed

text \<open>The theorem at a manifest that also lists \<open>auth0\<close> and \<open>prisma\<close>.\<close>

theorem firebase_sets_auth_and_data_witness:
  "\<exists>p. analyzeProject (manifestWorld firebaseText) (demoRuntime manifests) = Inr p
     \<and> auth (patterns p) = Some ''Firebase Authentication''
     \<and> dataManagement (patterns p) = Some ''Firebase Firestore''
     \<and> (\<exists>fs. frameworks p = fs @ [''Firebase''] \<and> ''Firebase'' \<notin> set fs)"
  by (rule firebase_sets_auth_and_data [of _ firebaseText _ firebaseManifest])
     (simp_all add: demo_defs deps_defs)

subsection \<open>The script in the manifest\<close>



subsection \<open>The configuration of the IDE\<close>



end
